theory Spec2Isabelle
  imports Complex_Main
begin

section \<open>Data model\<close>

text \<open>
  The library is a thin layer of TypeScript over the browser's DOM and over the
  package \<^verbatim>\<open>html-to-image\<close>. The embedding keeps the state the code reads
  and writes explicit:
  \<^item> a JavaScript \<^verbatim>\<open>number\<close> is a real number (the doubles that are not a
    number or infinite are left out), and \<^verbatim>\<open>a * b\<close> is the double nearest to the
    product, which the platform supplies;
  \<^item> an optional field (\<^verbatim>\<open>pixelRatio?: number\<close>) is an \<open>option\<close>, \<open>None\<close>
    standing for \<^verbatim>\<open>undefined\<close>;
  \<^item> an object reference (\<^verbatim>\<open>HTMLElement\<close>) is a \<open>ref\<close> into a store of
    elements, a nullable reference a \<open>ref option\<close>;
  \<^item> a thrown error or a rejected promise is the \<open>Inl\<close> branch of a sum;
  \<^item> every call the code makes on the DOM or on an external capability is appended
    to a trace, in program order, with the receiver and the arguments of the call.
\<close>

type_synonym number = real

type_synonym ref = nat

datatype error =
    Error string    \<comment> \<open>\<^verbatim>\<open>new Error(message)\<close>, thrown by the library itself\<close>
  | Thrown string   \<comment> \<open>any value thrown or rejected by an external capability\<close>

datatype format = Png | Jpeg

text \<open>\<^verbatim>\<open>a ?? b\<close>\<close>

definition orElse :: "'a option \<Rightarrow> 'a \<Rightarrow> 'a" where
  "orElse a b = (case a of None \<Rightarrow> b | Some v \<Rightarrow> v)"

text \<open>
  An element, as far as the library looks at it. Its inline style holds the declarations
  of \<^verbatim>\<open>overflow-x\<close> and \<^verbatim>\<open>overflow-y\<close> (the longhands of the shorthand
  \<^verbatim>\<open>overflow\<close>), of \<^verbatim>\<open>scrollbar-width\<close>, and of the custom properties: the value
  of each, the empty string standing for a property that is not declared, and, by the
  name of the property, whether the declaration is \<^verbatim>\<open>!important\<close>. Then come the
  class list and the geometry attributes, as the browser last laid the element out.
\<close>

record element =
  overflowX :: string
  overflowY :: string
  scrollbarWidth :: string
  properties :: "string \<Rightarrow> string"
  important :: "string \<Rightarrow> bool"
  classList :: "string list"
  clientWidth :: number
  clientHeight :: number
  scrollWidth :: number
  scrollHeight :: number
  scrollLeft :: number
  scrollTop :: number

text \<open>\<^verbatim>\<open>interface ExportOptions\<close>; the field \<^verbatim>\<open>filter\<close> is \<open>filterNode\<close> here.\<close>

record ExportOptions =
  pixelRatio :: "number option"
  quality :: "number option"
  backgroundColor :: "string option"
  filterNode :: "(element \<Rightarrow> bool) option"
  width :: "number option"
  height :: "number option"
  skipFonts :: "bool option"

text \<open>The \<^verbatim>\<open>region\<close> object \<^verbatim>\<open>{x, y, width, height}\<close>.\<close>

record region =
  region_x :: number
  region_y :: number
  region_width :: number
  region_height :: number

text \<open>\<^verbatim>\<open>interface ViewportOptions extends ExportOptions\<close>\<close>

record ViewportOptions = ExportOptions +
  format :: "format option"
  hideScrollbars :: "bool option"
  region :: "region option"

text \<open>
  A canvas is its \<^verbatim>\<open>width\<close> and \<^verbatim>\<open>height\<close> attributes, which are of the IDL
  type \<^verbatim>\<open>unsigned long\<close>, and the \<^verbatim>\<open>drawImage\<close> calls made on its 2D context,
  in order; the arguments of \<^verbatim>\<open>drawImage\<close> are doubles. The surface that the
  rasteriser returns is a canvas supplied by the platform.
\<close>

datatype canvas = Canvas (canvas_width: nat) (canvas_height: nat) (drawn: "drawing list")
and drawing = DrawImage canvas number number number number number number number number

text \<open>A node created by \<^verbatim>\<open>document.createElement\<close> and attached to the document.\<close>

record node =
  tagName :: string
  node_id :: string
  textContent :: string
  download :: string
  href :: string
  display :: string

datatype blob = Blob string

datatype event =
    GetStyle ref string
  | GetPropertyValue ref string
  | SetStyle ref string string
  | SetProperty ref string string
  | ClassListAdd ref string
  | ClassListRemove ref string
  | GetElementById string
  | CreateElement string
  | AppendChild string node
  | RemoveChild string node
  | Click node
  | GetClientWidth ref
  | GetClientHeight ref
  | ToCanvas ref element ExportOptions
  | SetCanvasWidth number
  | SetCanvasHeight number
  | GetContext canvas string
  | CallDrawImage canvas drawing
  | ToDataURL canvas string "number option"
  | CreateObjectURL blob string
  | RevokeObjectURL string

text \<open>
  The state of the page: the elements the caller holds references to, the children of
  \<^verbatim>\<open>document.head\<close> and \<^verbatim>\<open>document.body\<close>, the object URLs that are live, the
  number of object URLs created so far, and the trace.
\<close>

record dom =
  elements :: "ref \<Rightarrow> element"
  head :: "node list"
  body :: "node list"
  objectURLs :: "string list"
  created :: nat
  trace :: "event list"

text \<open>
  The capabilities the library consumes: the four functions imported from
  \<^verbatim>\<open>html-to-image\<close>, each of which may reject; whether \<^verbatim>\<open>getContext('2d')\<close>
  returns a context; whether \<^verbatim>\<open>drawImage\<close> throws; \<^verbatim>\<open>toDataURL\<close>, which may
  throw; the identifier that \<^verbatim>\<open>URL.createObjectURL\<close> puts after the scheme
  \<^verbatim>\<open>blob:\<close> of the n-th URL it creates; the client width and height at which the
  browser lays an element out, given its inline style and its classes; and the double
  nearest to a real number.
\<close>

record platform =
  toPng :: "element \<Rightarrow> ExportOptions \<Rightarrow> error + string"
  toJpeg :: "element \<Rightarrow> ExportOptions \<Rightarrow> error + string"
  toBlob :: "element \<Rightarrow> ExportOptions \<Rightarrow> error + blob option"
  toCanvas :: "element \<Rightarrow> ExportOptions \<Rightarrow> error + canvas"
  getContext :: "canvas \<Rightarrow> string \<Rightarrow> bool"
  drawImage :: "canvas \<Rightarrow> drawing \<Rightarrow> error option"
  toDataURL :: "canvas \<Rightarrow> string \<Rightarrow> number option \<Rightarrow> error + string"
  uuid :: "nat \<Rightarrow> string"
  clientSize :: "element \<Rightarrow> number \<times> number"
  nearest_double :: "real \<Rightarrow> number"

section \<open>DOM primitives\<close>

definition emit :: "event \<Rightarrow> dom \<Rightarrow> dom" where
  "emit e s = s\<lparr>trace := trace s @ [e]\<rparr>"

definition update_element :: "ref \<Rightarrow> (element \<Rightarrow> element) \<Rightarrow> dom \<Rightarrow> dom" where
  "update_element r f s = s\<lparr>elements := (elements s)(r := f (elements s r))\<rparr>"

text \<open>\<^verbatim>\<open>a * b\<close> on two numbers.\<close>

definition multiply :: "platform \<Rightarrow> number \<Rightarrow> number \<Rightarrow> number" where
  "multiply p a b = nearest_double p (a * b)"

text \<open>
  The inline style (CSSOM). Reading the shorthand \<^verbatim>\<open>style.overflow\<close> gives the
  empty string unless both longhands are declared, with the same priority; then it gives
  the one value, or the two when they differ. Assigning the empty string to a property
  removes its declaration, and for the shorthand the declarations of both longhands;
  assigning another value, which here is always one that was read from the same
  property, declares it with no priority, for the shorthand on both longhands.
\<close>

definition style_overflow :: "element \<Rightarrow> string" where
  "style_overflow e =
     (if overflowX e = [] \<or> overflowY e = [] then []
      else if important e ''overflow-x'' \<noteq> important e ''overflow-y'' then []
      else if overflowX e = overflowY e then overflowX e
      else overflowX e @ '' '' @ overflowY e)"

definition set_style_overflow :: "string \<Rightarrow> element \<Rightarrow> element" where
  "set_style_overflow v e =
     (let x = takeWhile (\<lambda>ch. ch \<noteq> CHR '' '') v;
          y = drop 1 (dropWhile (\<lambda>ch. ch \<noteq> CHR '' '') v)
      in e\<lparr>overflowX := x, overflowY := (if y = [] then x else y),
           important := (important e)(''overflow-x'' := False, ''overflow-y'' := False)\<rparr>)"

definition set_style_scrollbarWidth :: "string \<Rightarrow> element \<Rightarrow> element" where
  "set_style_scrollbarWidth v e =
     e\<lparr>scrollbarWidth := v, important := (important e)(''scrollbar-width'' := False)\<rparr>"

text \<open>\<^verbatim>\<open>style.getPropertyValue(name)\<close> and \<^verbatim>\<open>style.setProperty(name, value)\<close>
  on a custom property.\<close>

definition getPropertyValue :: "string \<Rightarrow> element \<Rightarrow> string" where
  "getPropertyValue n e = properties e n"

definition setProperty :: "string \<Rightarrow> string \<Rightarrow> element \<Rightarrow> element" where
  "setProperty n v e =
     e\<lparr>properties := (properties e)(n := v), important := (important e)(n := False)\<rparr>"

text \<open>
  After the inline style or the classes of an element have changed, the browser lays it
  out again before its geometry is read.
\<close>

definition reflow :: "platform \<Rightarrow> element \<Rightarrow> element" where
  "reflow p e = e\<lparr>clientWidth := fst (clientSize p e), clientHeight := snd (clientSize p e)\<rparr>"

text \<open>
  Assigning a number to the \<^verbatim>\<open>width\<close> or \<^verbatim>\<open>height\<close> of a canvas: the number is
  converted to an \<^verbatim>\<open>unsigned long\<close> (truncated towards zero, then taken modulo
  \<open>2 ^ 32\<close>), and a result above \<open>2 ^ 31 - 1\<close> is replaced by the default of the
  attribute, 300 for the width and 150 for the height.
\<close>

definition unsigned_long :: "number \<Rightarrow> nat" where
  "unsigned_long v = nat ((if v < 0 then - \<lfloor>- v\<rfloor> else \<lfloor>v\<rfloor>) mod 2 ^ 32)"

definition reflect_unsigned_long :: "nat \<Rightarrow> number \<Rightarrow> nat" where
  "reflect_unsigned_long d v =
     (if unsigned_long v \<le> 2147483647 then unsigned_long v else d)"

text \<open>\<^verbatim>\<open>DOMTokenList.add\<close> and \<^verbatim>\<open>DOMTokenList.remove\<close>\<close>

definition classList_add :: "string \<Rightarrow> string list \<Rightarrow> string list" where
  "classList_add t ts = (if t \<in> set ts then ts else ts @ [t])"

definition classList_remove :: "string \<Rightarrow> string list \<Rightarrow> string list" where
  "classList_remove t ts = filter (\<lambda>u. u \<noteq> t) ts"

text \<open>\<^verbatim>\<open>document.getElementById\<close>: the first element of the document with the id.\<close>

definition getElementById :: "string \<Rightarrow> dom \<Rightarrow> node option" where
  "getElementById i s = find (\<lambda>n. node_id n = i) (head s @ body s)"

text \<open>\<^verbatim>\<open>parent.removeChild(child)\<close>, for a child that was appended last.\<close>

definition removeChild :: "node \<Rightarrow> node list \<Rightarrow> node list" where
  "removeChild n ns = rev (remove1 n (rev ns))"

definition new_node :: "string \<Rightarrow> node" where
  "new_node t = \<lparr>tagName = t, node_id = [], textContent = [], download = [], href = [],
     display = []\<rparr>"

section \<open>The exported functions\<close>

text \<open>
  The functions of \<^verbatim>\<open>exporter.ts\<close>, in the order of the source. Line numbers are
  those of \<^verbatim>\<open>src/src/types.ts\<close>, which holds the interfaces of \<^verbatim>\<open>types.ts\<close>
  followed by \<^verbatim>\<open>exporter.ts\<close>.
\<close>

definition DEFAULT_PIXEL_RATIO :: number where
  "DEFAULT_PIXEL_RATIO = 2"

definition DEFAULT_JPEG_QUALITY :: number where
  "DEFAULT_JPEG_QUALITY = 95 / 100"

definition DEFAULT_JPEG_BACKGROUND :: string where
  "DEFAULT_JPEG_BACKGROUND = ''#ffffff''"

definition toHtmlToImageOptions :: "ExportOptions \<Rightarrow> bool \<Rightarrow> ExportOptions" where
  "toHtmlToImageOptions options isJpeg =
     \<lparr>pixelRatio = Some (orElse (pixelRatio options) DEFAULT_PIXEL_RATIO),
      quality = Some (orElse (quality options) DEFAULT_JPEG_QUALITY),
      backgroundColor =
        (case backgroundColor options of
           Some b \<Rightarrow> Some b
         | None \<Rightarrow> (if isJpeg then Some DEFAULT_JPEG_BACKGROUND else None)),
      filterNode = filterNode options,
      width = width options,
      height = height options,
      skipFonts = skipFonts options\<rparr>"

definition exportToPng ::
  "platform \<Rightarrow> ref option \<Rightarrow> ExportOptions \<Rightarrow> dom \<Rightarrow> error + string" where
  "exportToPng p element options s =
     (case element of
        None \<Rightarrow> Inl (Error ''Element is required for PNG export'')
      | Some e \<Rightarrow> toPng p (elements s e) (toHtmlToImageOptions options False))"

definition exportToJpeg ::
  "platform \<Rightarrow> ref option \<Rightarrow> ExportOptions \<Rightarrow> dom \<Rightarrow> error + string" where
  "exportToJpeg p element options s =
     (case element of
        None \<Rightarrow> Inl (Error ''Element is required for JPEG export'')
      | Some e \<Rightarrow> toJpeg p (elements s e) (toHtmlToImageOptions options True))"

definition exportToBlob ::
  "platform \<Rightarrow> ref option \<Rightarrow> ExportOptions \<Rightarrow> dom \<Rightarrow> error + blob option" where
  "exportToBlob p element options s =
     (case element of
        None \<Rightarrow> Inl (Error ''Element is required for Blob export'')
      | Some e \<Rightarrow> toBlob p (elements s e) (toHtmlToImageOptions options False))"

definition exportToCanvas ::
  "platform \<Rightarrow> ref option \<Rightarrow> ExportOptions \<Rightarrow> dom \<Rightarrow> error + canvas" where
  "exportToCanvas p element options s =
     (case element of
        None \<Rightarrow> Inl (Error ''Element is required for Canvas export'')
      | Some e \<Rightarrow> toCanvas p (elements s e) (toHtmlToImageOptions options False))"

subsection \<open>downloadImage, downloadBlob\<close>

definition downloadImage :: "string \<Rightarrow> string \<Rightarrow> dom \<Rightarrow> (error + unit) \<times> dom" where
  "downloadImage dataUrl filename s =
     (if dataUrl = [] then (Inl (Error ''Data URL is required for download''), s)
      else if filename = [] then (Inl (Error ''Filename is required for download''), s)
      else
        let s1 = emit (CreateElement ''a'') s;
            link = (new_node ''a'')\<lparr>download := filename, href := dataUrl, display := ''none''\<rparr>;
            s2 = emit (AppendChild ''body'' link) (s1\<lparr>body := body s1 @ [link]\<rparr>);
            s3 = emit (Click link) s2;
            s4 = emit (RemoveChild ''body'' link) (s3\<lparr>body := removeChild link (body s3)\<rparr>)
        in (Inr (), s4))"

text \<open>
  \<^verbatim>\<open>URL.createObjectURL\<close> returns a URL of the scheme \<^verbatim>\<open>blob:\<close> and registers
  it; \<^verbatim>\<open>URL.revokeObjectURL\<close> takes it out of the registry.
\<close>

definition createObjectURL :: "platform \<Rightarrow> blob \<Rightarrow> dom \<Rightarrow> string \<times> dom" where
  "createObjectURL p b s =
     (let url = ''blob:'' @ uuid p (created s)
      in (url, emit (CreateObjectURL b url)
                 (s\<lparr>objectURLs := objectURLs s @ [url], created := Suc (created s)\<rparr>)))"

definition revokeObjectURL :: "string \<Rightarrow> dom \<Rightarrow> dom" where
  "revokeObjectURL url s =
     emit (RevokeObjectURL url) (s\<lparr>objectURLs := removeAll url (objectURLs s)\<rparr>)"

definition downloadBlob ::
  "platform \<Rightarrow> blob option \<Rightarrow> string \<Rightarrow> dom \<Rightarrow> (error + unit) \<times> dom" where
  "downloadBlob p blob filename s =
     (case blob of
        None \<Rightarrow> (Inl (Error ''Blob is required for download''), s)
      | Some b \<Rightarrow>
          if filename = [] then (Inl (Error ''Filename is required for download''), s)
          else
            let (url, s1) = createObjectURL p b s
            in (case downloadImage url filename s1 of
                  (Inl e, s2) \<Rightarrow> (Inl e, s2)
                | (Inr u, s2) \<Rightarrow> (Inr (), revokeObjectURL url s2)))"

subsection \<open>captureViewport\<close>

text \<open>The two names the scrollbar hiding goes by: the marker class and the id of the
  shared style element.\<close>

abbreviation marker_class :: string where
  "marker_class \<equiv> ''__capture-hide-scrollbars''"

abbreviation styles_id :: string where
  "styles_id \<equiv> ''__capture-viewport-styles''"

text \<open>Lines 319 to 325: the style element, as it is when it is appended.\<close>

definition style_node :: node where
  "style_node = (new_node ''style'')\<lparr>node_id := styles_id,
     textContent := ''
          .__capture-hide-scrollbars::-webkit-scrollbar {
            display: none !important;
          }
        ''\<rparr>"

text \<open>Lines 313 to 327: the body of \<^verbatim>\<open>if (hideScrollbars)\<close>. The container is laid
  out again when the block has changed its style and its classes.\<close>

definition hide_scrollbars :: "platform \<Rightarrow> ref \<Rightarrow> dom \<Rightarrow> dom" where
  "hide_scrollbars p c s =
     (let s1 = emit (SetStyle c ''scrollbarWidth'' ''none'')
                 (update_element c (set_style_scrollbarWidth ''none'') s);
          s2 = emit (ClassListAdd c marker_class)
                 (update_element c
                    (\<lambda>e. e\<lparr>classList := classList_add marker_class (classList e)\<rparr>) s1);
          s3 = emit (GetElementById styles_id) s2;
          s5 = (if getElementById styles_id s3 = None
                then
                  let s4 = emit (CreateElement ''style'') s3
                  in emit (AppendChild ''head'' style_node) (s4\<lparr>head := head s4 @ [style_node]\<rparr>)
                else s3)
      in update_element c (reflow p) s5)"

text \<open>
  \<^verbatim>\<open>canvas.toDataURL(type, quality)\<close> on the platform, logged; the two
  \<^verbatim>\<open>if (format === 'jpeg')\<close> exits of the source are \<open>export_canvas\<close>.
\<close>

definition call_toDataURL ::
  "platform \<Rightarrow> canvas \<Rightarrow> string \<Rightarrow> number option \<Rightarrow> dom \<Rightarrow> (error + string) \<times> dom" where
  "call_toDataURL p cv ty q s = (toDataURL p cv ty q, emit (ToDataURL cv ty q) s)"

definition export_canvas ::
  "platform \<Rightarrow> canvas \<Rightarrow> format \<Rightarrow> ExportOptions \<Rightarrow> dom \<Rightarrow> (error + string) \<times> dom" where
  "export_canvas p cv fmt restOptions s =
     (if fmt = Jpeg
      then call_toDataURL p cv ''image/jpeg''
             (Some (orElse (quality restOptions) DEFAULT_JPEG_QUALITY)) s
      else call_toDataURL p cv ''image/png'' None s)"

text \<open>Lines 343 to 376: the body of \<^verbatim>\<open>if (region)\<close>.\<close>

definition crop_region ::
  "platform \<Rightarrow> canvas \<Rightarrow> region \<Rightarrow> number \<Rightarrow> format \<Rightarrow> ExportOptions \<Rightarrow> dom
     \<Rightarrow> (error + string) \<times> dom" where
  "crop_region p fullCanvas rg ratio fmt restOptions s =
     (let s1 = emit (CreateElement ''canvas'') s;
          sx = multiply p (region_x rg) ratio;
          sy = multiply p (region_y rg) ratio;
          sw = multiply p (region_width rg) ratio;
          sh = multiply p (region_height rg) ratio;
          s2 = emit (SetCanvasWidth sw) s1;
          s3 = emit (SetCanvasHeight sh) s2;
          croppedCanvas = Canvas (reflect_unsigned_long 300 sw) (reflect_unsigned_long 150 sh) [];
          s4 = emit (GetContext croppedCanvas ''2d'') s3
      in if \<not> getContext p croppedCanvas ''2d''
         then (Inl (Error ''Failed to get canvas context''), s4)
         else
           let d = DrawImage fullCanvas sx sy sw sh 0 0 sw sh;
               s5 = emit (CallDrawImage croppedCanvas d) s4
           in (case drawImage p croppedCanvas d of
                 Some e \<Rightarrow> (Inl e, s5)
               | None \<Rightarrow>
                   export_canvas p
                     (Canvas (reflect_unsigned_long 300 sw) (reflect_unsigned_long 150 sh) [d])
                     fmt restOptions s5))"

text \<open>Lines 311 to 383: the \<^verbatim>\<open>try\<close> block.\<close>

definition capture_try ::
  "platform \<Rightarrow> ref \<Rightarrow> format \<Rightarrow> bool \<Rightarrow> region option \<Rightarrow> number \<Rightarrow> ExportOptions \<Rightarrow> dom
     \<Rightarrow> (error + string) \<times> dom" where
  "capture_try p c fmt hide rgn ratio restOptions s =
     (let s1 = (if hide then hide_scrollbars p c s else s);
          s2 = emit (GetClientWidth c) s1;
          visibleW = clientWidth (elements s2 c);
          s3 = emit (GetClientHeight c) s2;
          visibleH = clientHeight (elements s3 c);
          opts = (toHtmlToImageOptions (restOptions\<lparr>pixelRatio := Some ratio\<rparr>) (fmt = Jpeg))
                   \<lparr>width := Some visibleW, height := Some visibleH\<rparr>;
          s4 = emit (ToCanvas c (elements s3 c) opts) s3
      in (case toCanvas p (elements s4 c) opts of
            Inl e \<Rightarrow> (Inl e, s4)
          | Inr fullCanvas \<Rightarrow>
              (case rgn of
                 Some rg \<Rightarrow> crop_region p fullCanvas rg ratio fmt restOptions s4
               | None \<Rightarrow> export_canvas p fullCanvas fmt restOptions s4)))"

text \<open>Lines 386 to 392: the \<^verbatim>\<open>finally\<close> block, after which the container is laid
  out again.\<close>

definition capture_finally ::
  "platform \<Rightarrow> ref \<Rightarrow> string \<Rightarrow> string \<Rightarrow> string \<Rightarrow> dom \<Rightarrow> dom" where
  "capture_finally p c originalOverflow originalScrollbarWidth originalWebkitScrollbar s =
     (let s1 = emit (SetStyle c ''overflow'' originalOverflow)
                 (update_element c (set_style_overflow originalOverflow) s);
          s2 = emit (SetStyle c ''scrollbarWidth'' originalScrollbarWidth)
                 (update_element c (set_style_scrollbarWidth originalScrollbarWidth) s1);
          s3 = (if originalWebkitScrollbar \<noteq> []
                then emit (SetProperty c ''--webkit-scrollbar-display'' originalWebkitScrollbar)
                       (update_element c
                          (setProperty ''--webkit-scrollbar-display'' originalWebkitScrollbar) s2)
                else s2);
          s4 = emit (ClassListRemove c marker_class)
                 (update_element c
                    (\<lambda>e. e\<lparr>classList := classList_remove marker_class (classList e)\<rparr>) s3)
      in update_element c (reflow p) s4)"

definition captureViewport ::
  "platform \<Rightarrow> ref option \<Rightarrow> ViewportOptions \<Rightarrow> dom \<Rightarrow> (error + string) \<times> dom" where
  "captureViewport p container options s =
     (case container of
        None \<Rightarrow> (Inl (Error ''Container element is required for viewport capture''), s)
      | Some c \<Rightarrow>
          let restOptions = (ExportOptions.truncate options)\<lparr>pixelRatio := None\<rparr>;
              s1 = emit (GetStyle c ''overflow'') s;
              originalOverflow = style_overflow (elements s1 c);
              s2 = emit (GetStyle c ''scrollbarWidth'') s1;
              originalScrollbarWidth = scrollbarWidth (elements s2 c);
              s3 = emit (GetPropertyValue c ''--webkit-scrollbar-display'') s2;
              originalWebkitScrollbar =
                getPropertyValue ''--webkit-scrollbar-display'' (elements s3 c);
              (r, s4) = capture_try p c (orElse (format options) Png)
                          (orElse (hideScrollbars options) True) (region options)
                          (orElse (pixelRatio options) DEFAULT_PIXEL_RATIO) restOptions s3
          in (r, capture_finally p c originalOverflow originalScrollbarWidth
                   originalWebkitScrollbar s4))"

subsection \<open>getViewportInfo\<close>

record ViewportInfo =
  visibleWidth :: number
  visibleHeight :: number
  scrollLeft' :: number
  scrollTop' :: number
  scrollWidth' :: number
  scrollHeight' :: number
  isScrollable :: bool
  hasHorizontalScroll :: bool
  hasVerticalScroll :: bool

definition getViewportInfo :: "ref option \<Rightarrow> dom \<Rightarrow> error + ViewportInfo" where
  "getViewportInfo container s =
     (case container of
        None \<Rightarrow> Inl (Error ''Container element is required'')
      | Some c \<Rightarrow>
          let vw = clientWidth (elements s c);
              vh = clientHeight (elements s c);
              sw = scrollWidth (elements s c);
              sh = scrollHeight (elements s c)
          in Inr \<lparr>visibleWidth = vw,
                  visibleHeight = vh,
                  scrollLeft' = scrollLeft (elements s c),
                  scrollTop' = scrollTop (elements s c),
                  scrollWidth' = sw,
                  scrollHeight' = sh,
                  isScrollable = (sw > vw \<or> sh > vh),
                  hasHorizontalScroll = (sw > vw),
                  hasVerticalScroll = (sh > vh)\<rparr>)"

section \<open>Traces\<close>

text \<open>The events a call appended to the trace, and the calls of the rasteriser among them.\<close>

definition events_of :: "dom \<Rightarrow> dom \<Rightarrow> event list" where
  "events_of s s' = drop (length (trace s)) (trace s')"

definition toCanvas_calls :: "event list \<Rightarrow> (ref \<times> element \<times> ExportOptions) list" where
  "toCanvas_calls tr =
     concat (map (\<lambda>e. case e of ToCanvas c el opts \<Rightarrow> [(c, el, opts)] | _ \<Rightarrow> []) tr)"

text \<open>
  The stage of the capture an event of the \<^verbatim>\<open>try\<close> block belongs to: 0 for the reads
  that save the inline styles, 1 for the scrollbar hiding, 2 for the measurement of the
  visible size, 3 for the rasterisation, 4 for the crop, 5 for the encoding. The events
  that no \<^verbatim>\<open>try\<close> block emits are at 6.
\<close>

fun stage :: "event \<Rightarrow> nat" where
  "stage (GetStyle c n) = 0"
| "stage (GetPropertyValue c n) = 0"
| "stage (SetStyle c n v) = 1"
| "stage (ClassListAdd c t) = 1"
| "stage (GetElementById i) = 1"
| "stage (CreateElement t) = (if t = ''canvas'' then 4 else 1)"
| "stage (AppendChild parent n) = 1"
| "stage (GetClientWidth c) = 2"
| "stage (GetClientHeight c) = 2"
| "stage (ToCanvas c el opts) = 3"
| "stage (SetCanvasWidth v) = 4"
| "stage (SetCanvasHeight v) = 4"
| "stage (GetContext cv t) = 4"
| "stage (CallDrawImage cv d) = 4"
| "stage (ToDataURL cv ty q) = 5"
| "stage (SetProperty c n v) = 6"
| "stage (ClassListRemove c t) = 6"
| "stage (RemoveChild parent n) = 6"
| "stage (Click n) = 6"
| "stage (CreateObjectURL b u) = 6"
| "stage (RevokeObjectURL u) = 6"

text \<open>The writes of the \<^verbatim>\<open>finally\<close> block, for a container that was \<open>e\<close> before the
  call.\<close>

definition release_events :: "ref \<Rightarrow> element \<Rightarrow> event list" where
  "release_events c e =
     [SetStyle c ''overflow'' (style_overflow e), SetStyle c ''scrollbarWidth'' (scrollbarWidth e)] @
     (if properties e ''--webkit-scrollbar-display'' \<noteq> []
      then [SetProperty c ''--webkit-scrollbar-display'' (properties e ''--webkit-scrollbar-display'')]
      else []) @
     [ClassListRemove c marker_class]"

text \<open>The events and the result of each block, as functions of what the platform answers.\<close>

definition hide_events :: "ref \<Rightarrow> dom \<Rightarrow> event list" where
  "hide_events c s =
     [SetStyle c ''scrollbarWidth'' ''none'', ClassListAdd c marker_class, GetElementById styles_id] @
     (if getElementById styles_id s = None
      then [CreateElement ''style'', AppendChild ''head'' style_node] else [])"

definition encode_args :: "format \<Rightarrow> ExportOptions \<Rightarrow> string \<times> number option" where
  "encode_args fmt restOptions =
     (if fmt = Jpeg then (''image/jpeg'', Some (orElse (quality restOptions) DEFAULT_JPEG_QUALITY))
      else (''image/png'', None))"

definition scaled_canvas :: "platform \<Rightarrow> region \<Rightarrow> number \<Rightarrow> drawing list \<Rightarrow> canvas" where
  "scaled_canvas p rg ratio ds =
     Canvas (reflect_unsigned_long 300 (multiply p (region_width rg) ratio))
       (reflect_unsigned_long 150 (multiply p (region_height rg) ratio)) ds"

definition scaled_drawing :: "platform \<Rightarrow> canvas \<Rightarrow> region \<Rightarrow> number \<Rightarrow> drawing" where
  "scaled_drawing p fullCanvas rg ratio =
     DrawImage fullCanvas (multiply p (region_x rg) ratio) (multiply p (region_y rg) ratio)
       (multiply p (region_width rg) ratio) (multiply p (region_height rg) ratio) 0 0
       (multiply p (region_width rg) ratio) (multiply p (region_height rg) ratio)"

definition encode_event :: "canvas \<Rightarrow> format \<Rightarrow> ExportOptions \<Rightarrow> event" where
  "encode_event cv fmt ro = ToDataURL cv (fst (encode_args fmt ro)) (snd (encode_args fmt ro))"

definition crop_events ::
  "platform \<Rightarrow> canvas \<Rightarrow> region \<Rightarrow> number \<Rightarrow> format \<Rightarrow> ExportOptions \<Rightarrow> event list" where
  "crop_events p full rg ratio fmt ro =
     [CreateElement ''canvas'', SetCanvasWidth (multiply p (region_width rg) ratio),
      SetCanvasHeight (multiply p (region_height rg) ratio),
      GetContext (scaled_canvas p rg ratio []) ''2d''] @
     (if getContext p (scaled_canvas p rg ratio []) ''2d''
      then CallDrawImage (scaled_canvas p rg ratio []) (scaled_drawing p full rg ratio) #
           (case drawImage p (scaled_canvas p rg ratio []) (scaled_drawing p full rg ratio) of
              Some e \<Rightarrow> []
            | None \<Rightarrow>
                [encode_event (scaled_canvas p rg ratio [scaled_drawing p full rg ratio]) fmt ro])
      else [])"

definition crop_result ::
  "platform \<Rightarrow> canvas \<Rightarrow> region \<Rightarrow> number \<Rightarrow> format \<Rightarrow> ExportOptions \<Rightarrow> error + string" where
  "crop_result p full rg ratio fmt ro =
     (if getContext p (scaled_canvas p rg ratio []) ''2d''
      then (case drawImage p (scaled_canvas p rg ratio []) (scaled_drawing p full rg ratio) of
              Some e \<Rightarrow> Inl e
            | None \<Rightarrow> toDataURL p (scaled_canvas p rg ratio [scaled_drawing p full rg ratio])
                        (fst (encode_args fmt ro)) (snd (encode_args fmt ro)))
      else Inl (Error ''Failed to get canvas context''))"

text \<open>The container after the scrollbar hiding, and after the \<^verbatim>\<open>finally\<close> block that
  writes back the three values given.\<close>

definition hidden :: "platform \<Rightarrow> element \<Rightarrow> element" where
  "hidden p e =
     reflow p ((set_style_scrollbarWidth ''none'' e)
       \<lparr>classList := classList_add marker_class (classList e)\<rparr>)"

definition released :: "platform \<Rightarrow> string \<Rightarrow> string \<Rightarrow> string \<Rightarrow> element \<Rightarrow> element" where
  "released p ov sw wk e =
     reflow p
       (((if wk \<noteq> [] then setProperty ''--webkit-scrollbar-display'' wk else (\<lambda>e. e))
           (set_style_scrollbarWidth sw (set_style_overflow ov e)))
        \<lparr>classList := classList_remove marker_class (classList e)\<rparr>)"

definition raster_element :: "platform \<Rightarrow> ref \<Rightarrow> bool \<Rightarrow> dom \<Rightarrow> element" where
  "raster_element p c hide s = elements (if hide then hide_scrollbars p c s else s) c"

definition raster_options :: "format \<Rightarrow> number \<Rightarrow> ExportOptions \<Rightarrow> element \<Rightarrow> ExportOptions" where
  "raster_options fmt ratio ro el =
     (toHtmlToImageOptions (ro\<lparr>pixelRatio := Some ratio\<rparr>) (fmt = Jpeg))
       \<lparr>width := Some (clientWidth el), height := Some (clientHeight el)\<rparr>"

definition finish_events ::
  "platform \<Rightarrow> region option \<Rightarrow> number \<Rightarrow> format \<Rightarrow> ExportOptions \<Rightarrow> error + canvas
     \<Rightarrow> event list" where
  "finish_events p rgn ratio fmt ro r =
     (case r of
        Inl e \<Rightarrow> []
      | Inr full \<Rightarrow>
          (case rgn of
             Some rg \<Rightarrow> crop_events p full rg ratio fmt ro
           | None \<Rightarrow> [encode_event full fmt ro]))"

definition try_events ::
  "platform \<Rightarrow> ref \<Rightarrow> format \<Rightarrow> bool \<Rightarrow> region option \<Rightarrow> number \<Rightarrow> ExportOptions \<Rightarrow> dom
     \<Rightarrow> event list" where
  "try_events p c fmt hide rgn ratio ro s =
     (if hide then hide_events c s else []) @
     [GetClientWidth c, GetClientHeight c,
      ToCanvas c (raster_element p c hide s) (raster_options fmt ratio ro (raster_element p c hide s))] @
     finish_events p rgn ratio fmt ro
       (toCanvas p (raster_element p c hide s)
          (raster_options fmt ratio ro (raster_element p c hide s)))"

definition try_result ::
  "platform \<Rightarrow> ref \<Rightarrow> format \<Rightarrow> bool \<Rightarrow> region option \<Rightarrow> number \<Rightarrow> ExportOptions \<Rightarrow> dom
     \<Rightarrow> error + string" where
  "try_result p c fmt hide rgn ratio ro s =
     (case toCanvas p (raster_element p c hide s) (raster_options fmt ratio ro (raster_element p c hide s)) of
        Inl e \<Rightarrow> Inl e
      | Inr full \<Rightarrow>
          (case rgn of
             Some rg \<Rightarrow> crop_result p full rg ratio fmt ro
           | None \<Rightarrow> toDataURL p full (fst (encode_args fmt ro)) (snd (encode_args fmt ro))))"

text \<open>The reads that save the inline styles, and the events of a call up to the
  \<^verbatim>\<open>finally\<close> block.\<close>

abbreviation snapshot :: "ref \<Rightarrow> dom \<Rightarrow> dom" where
  "snapshot c s \<equiv> emit (GetPropertyValue c ''--webkit-scrollbar-display'')
     (emit (GetStyle c ''scrollbarWidth'') (emit (GetStyle c ''overflow'') s))"

definition rest_of :: "ViewportOptions \<Rightarrow> ExportOptions" where
  "rest_of options = (ExportOptions.truncate options)\<lparr>pixelRatio := None\<rparr>"

definition body_events :: "platform \<Rightarrow> ref \<Rightarrow> ViewportOptions \<Rightarrow> dom \<Rightarrow> event list" where
  "body_events p c options s =
     [GetStyle c ''overflow'', GetStyle c ''scrollbarWidth'',
      GetPropertyValue c ''--webkit-scrollbar-display''] @
     try_events p c (orElse (format options) Png) (orElse (hideScrollbars options) True)
       (region options) (orElse (pixelRatio options) DEFAULT_PIXEL_RATIO) (rest_of options) s"

section \<open>Concrete inputs\<close>

text \<open>
  A scrolling container with no inline style and no class, whose scrollbars take 15
  pixels: it shows 385 by 285 pixels, and 400 by 300 when its scrollbars are hidden; a
  page that holds it under every reference; the empty options object; and a platform on
  which every capability succeeds: it lays the container out at these two sizes, the
  rasteriser returns a surface of the requested size times the pixel ratio, and every
  number met is a double.
\<close>

definition plain_container :: element where
  "plain_container =
     \<lparr>overflowX = [], overflowY = [], scrollbarWidth = [], properties = (\<lambda>n. []),
      important = (\<lambda>n. False), classList = [],
      clientWidth = 385, clientHeight = 285, scrollWidth = 1600, scrollHeight = 1200,
      scrollLeft = 0, scrollTop = 0\<rparr>"

definition plain_page :: dom where
  "plain_page =
     \<lparr>elements = (\<lambda>r. plain_container), head = [], body = [], objectURLs = [],
      created = 0, trace = []\<rparr>"

definition no_options :: ViewportOptions where
  "no_options =
     \<lparr>pixelRatio = None, quality = None, backgroundColor = None, filterNode = None,
      width = None, height = None, skipFonts = None, format = None, hideScrollbars = None,
      region = None\<rparr>"

definition working_platform :: platform where
  "working_platform =
     \<lparr>toPng = (\<lambda>el opts. Inr ''data:image/png;base64,''),
      toJpeg = (\<lambda>el opts. Inr ''data:image/jpeg;base64,''),
      toBlob = (\<lambda>el opts. Inr (Some (Blob ''png''))),
      toCanvas = (\<lambda>el opts. Inr (Canvas (nat \<lfloor>orElse (width opts) 0 * orElse (pixelRatio opts) 1\<rfloor>)
                                     (nat \<lfloor>orElse (height opts) 0 * orElse (pixelRatio opts) 1\<rfloor>) [])),
      getContext = (\<lambda>cv t. True),
      drawImage = (\<lambda>cv d. None),
      toDataURL = (\<lambda>cv ty q. Inr (''data:'' @ ty @ '';base64,'')),
      uuid = (\<lambda>n. replicate (Suc n) CHR ''u''),
      clientSize = (\<lambda>e. if scrollbarWidth e = ''none'' then (400, 300) else (385, 285)),
      nearest_double = (\<lambda>x. x)\<rparr>"

text \<open>The same page, its container already hidden: the scrollbar width is
  \<^verbatim>\<open>none\<close> and the marker class is set.\<close>

definition suppressed_page :: dom where
  "suppressed_page =
     plain_page\<lparr>elements := (\<lambda>r. plain_container\<lparr>scrollbarWidth := ''none'',
       classList := [marker_class], clientWidth := 400, clientHeight := 300\<rparr>)\<rparr>"

text \<open>Options that ask for a surface of 100 by 50 pixels.\<close>

definition sized_options :: ViewportOptions where
  "sized_options = no_options\<lparr>width := Some 100, height := Some 50\<rparr>"


definition region_options :: ViewportOptions where
  "region_options = no_options\<lparr>region :=
     Some \<lparr>region_x = 100, region_y = 50, region_width = 400, region_height = 300\<rparr>\<rparr>"

definition tainted_platform :: platform where
  "tainted_platform = working_platform\<lparr>toCanvas := (\<lambda>el opts. Inl (Thrown ''tainted''))\<rparr>"

definition contextless_platform :: platform where
  "contextless_platform = working_platform\<lparr>getContext := (\<lambda>cv t. False)\<rparr>"

definition undrawable_platform :: platform where
  "undrawable_platform =
     working_platform\<lparr>drawImage := (\<lambda>cv d. Some (Thrown ''InvalidStateError''))\<rparr>"

definition insecure_platform :: platform where
  "insecure_platform =
     working_platform\<lparr>toDataURL := (\<lambda>cv ty q. Inl (Thrown ''SecurityError''))\<rparr>"

text \<open>
  The page whose container has \<^verbatim>\<open>overflow-x: scroll\<close> as its only inline style, and
  the page whose container has \<^verbatim>\<open>overflow: hidden !important\<close>.
\<close>

definition horizontal_page :: dom where
  "horizontal_page = plain_page\<lparr>elements := (\<lambda>r. plain_container\<lparr>overflowX := ''scroll''\<rparr>)\<rparr>"

definition pinned_page :: dom where
  "pinned_page =
     plain_page\<lparr>elements := (\<lambda>r. plain_container\<lparr>overflowX := ''hidden'',
       overflowY := ''hidden'',
       important := (\<lambda>n. n = ''overflow-x'' \<or> n = ''overflow-y'')\<rparr>)\<rparr>"

section \<open>Sequences of calls\<close>

text \<open>
  The three exported functions that change the page, and a run of calls on a page, one
  after the other, each with the platform it meets. The other five exported functions
  return a value and leave the page as it is.
\<close>

datatype call =
    CaptureViewport platform "ref option" ViewportOptions
  | DownloadImage string string
  | DownloadBlob platform "blob option" string

fun run_call :: "call \<Rightarrow> dom \<Rightarrow> dom" where
  "run_call (CaptureViewport p container options) s = snd (captureViewport p container options s)"
| "run_call (DownloadImage dataUrl filename) s = snd (downloadImage dataUrl filename s)"
| "run_call (DownloadBlob p blob filename) s = snd (downloadBlob p blob filename s)"

definition run :: "call list \<Rightarrow> dom \<Rightarrow> dom" where
  "run cs s = fold run_call cs s"

text \<open>The calls that hide scrollbars: \<^verbatim>\<open>captureViewport\<close> on a container that is not
  null, with \<^verbatim>\<open>hideScrollbars\<close> true or absent.\<close>

fun hides :: "call \<Rightarrow> bool" where
  "hides (CaptureViewport p (Some c) options) = orElse (hideScrollbars options) True"
| "hides other = False"

text \<open>The number of elements of the document with the id of the shared style element.\<close>

definition styles_count :: "dom \<Rightarrow> nat" where
  "styles_count s = length (filter (\<lambda>n. node_id n = styles_id) (head s @ body s))"

section \<open>The blocks of captureViewport\<close>

lemma emit_simps [simp]:
  "trace (emit e s) = trace s @ [e]"
  "elements (emit e s) = elements s"
  "head (emit e s) = head s"
  "body (emit e s) = body s"
  "objectURLs (emit e s) = objectURLs s"
  "created (emit e s) = created s"
  by (simp_all add: emit_def)

lemma update_element_simps [simp]:
  "trace (update_element r f s) = trace s"
  "elements (update_element r f s) = (elements s)(r := f (elements s r))"
  "head (update_element r f s) = head s"
  "body (update_element r f s) = body s"
  "objectURLs (update_element r f s) = objectURLs s"
  "created (update_element r f s) = created s"
  by (simp_all add: update_element_def)

lemma getElementById_simps [simp]:
  "getElementById i (emit e s) = getElementById i s"
  "getElementById i (update_element r f s) = getElementById i s"
  by (simp_all add: getElementById_def)

lemma set_style_scrollbarWidth_simps [simp]:
  "scrollbarWidth (set_style_scrollbarWidth v e) = v"
  "properties (set_style_scrollbarWidth v e) = properties e"
  "classList (set_style_scrollbarWidth v e) = classList e"
  "overflowX (set_style_scrollbarWidth v e) = overflowX e"
  "overflowY (set_style_scrollbarWidth v e) = overflowY e"
  by (simp_all add: set_style_scrollbarWidth_def)

lemma set_style_overflow_simps [simp]:
  "scrollbarWidth (set_style_overflow v e) = scrollbarWidth e"
  "properties (set_style_overflow v e) = properties e"
  "classList (set_style_overflow v e) = classList e"
  by (simp_all add: set_style_overflow_def Let_def)

lemma setProperty_simps [simp]:
  "scrollbarWidth (setProperty n v e) = scrollbarWidth e"
  "properties (setProperty n v e) = (properties e)(n := v)"
  "classList (setProperty n v e) = classList e"
  "overflowX (setProperty n v e) = overflowX e"
  "overflowY (setProperty n v e) = overflowY e"
  by (simp_all add: setProperty_def)

lemma reflow_simps [simp]:
  "scrollbarWidth (reflow p e) = scrollbarWidth e"
  "properties (reflow p e) = properties e"
  "classList (reflow p e) = classList e"
  "overflowX (reflow p e) = overflowX e"
  "overflowY (reflow p e) = overflowY e"
  "important (reflow p e) = important e"
  "clientWidth (reflow p e) = fst (clientSize p e)"
  "clientHeight (reflow p e) = snd (clientSize p e)"
  by (simp_all add: reflow_def)

lemma style_overflow_reflow [simp]: "style_overflow (reflow p e) = style_overflow e"
  by (simp add: style_overflow_def)

lemma hidden_simps [simp]:
  "scrollbarWidth (hidden p e) = ''none''"
  "properties (hidden p e) = properties e"
  "classList (hidden p e) = classList_add marker_class (classList e)"
  "overflowX (hidden p e) = overflowX e"
  "overflowY (hidden p e) = overflowY e"
  by (simp_all add: hidden_def)

lemma released_simps [simp]:
  "scrollbarWidth (released p ov sw wk e) = sw"
  "properties (released p ov sw wk e) =
     (if wk \<noteq> [] then (properties e)(''--webkit-scrollbar-display'' := wk) else properties e)"
  "classList (released p ov sw wk e) = classList_remove marker_class (classList e)"
  by (simp_all add: released_def)

lemma hide_scrollbars_trace: "trace (hide_scrollbars p c s) = trace s @ hide_events c s"
  by (simp add: hide_scrollbars_def hide_events_def Let_def)

lemma hide_scrollbars_elements:
  "elements (hide_scrollbars p c s) = (elements s)(c := hidden p (elements s c))"
  by (simp add: hide_scrollbars_def hidden_def Let_def)

lemma hide_scrollbars_head:
  "head (hide_scrollbars p c s) =
     (if getElementById styles_id s = None then head s @ [style_node] else head s)"
  by (simp add: hide_scrollbars_def Let_def)

lemma hide_scrollbars_rest [simp]:
  "body (hide_scrollbars p c s) = body s"
  "objectURLs (hide_scrollbars p c s) = objectURLs s"
  "created (hide_scrollbars p c s) = created s"
  by (simp_all add: hide_scrollbars_def Let_def)

lemma export_canvas_eq:
  "export_canvas p cv fmt ro s =
     (toDataURL p cv (fst (encode_args fmt ro)) (snd (encode_args fmt ro)),
      emit (encode_event cv fmt ro) s)"
  by (simp add: export_canvas_def encode_args_def encode_event_def call_toDataURL_def)

lemma crop_region_trace:
  "trace (snd (crop_region p full rg ratio fmt ro s)) = trace s @ crop_events p full rg ratio fmt ro"
  by (simp add: crop_region_def crop_events_def scaled_canvas_def scaled_drawing_def
      export_canvas_eq Let_def split: option.split)

lemma crop_region_result:
  "fst (crop_region p full rg ratio fmt ro s) = crop_result p full rg ratio fmt ro"
  by (simp add: crop_region_def crop_result_def scaled_canvas_def scaled_drawing_def
      export_canvas_eq Let_def split: option.split)

lemma crop_region_frame [simp]:
  "elements (snd (crop_region p full rg ratio fmt ro s)) = elements s"
  "head (snd (crop_region p full rg ratio fmt ro s)) = head s"
  "body (snd (crop_region p full rg ratio fmt ro s)) = body s"
  "objectURLs (snd (crop_region p full rg ratio fmt ro s)) = objectURLs s"
  "created (snd (crop_region p full rg ratio fmt ro s)) = created s"
  by (simp_all add: crop_region_def export_canvas_eq Let_def split: option.split)

lemma capture_try_trace:
  "trace (snd (capture_try p c fmt hide rgn ratio ro s)) =
     trace s @ try_events p c fmt hide rgn ratio ro s"
  by (simp add: capture_try_def try_events_def raster_element_def raster_options_def
      finish_events_def hide_scrollbars_trace crop_region_trace export_canvas_eq Let_def
      split: option.split sum.split)

lemma capture_try_result:
  "fst (capture_try p c fmt hide rgn ratio ro s) = try_result p c fmt hide rgn ratio ro s"
  by (simp add: capture_try_def try_result_def raster_element_def raster_options_def
      crop_region_result export_canvas_eq Let_def split: option.split sum.split)

lemma capture_try_frame:
  "elements (snd (capture_try p c fmt hide rgn ratio ro s)) =
     elements (if hide then hide_scrollbars p c s else s)"
  "head (snd (capture_try p c fmt hide rgn ratio ro s)) =
     head (if hide then hide_scrollbars p c s else s)"
  "body (snd (capture_try p c fmt hide rgn ratio ro s)) = body s"
  "objectURLs (snd (capture_try p c fmt hide rgn ratio ro s)) = objectURLs s"
  "created (snd (capture_try p c fmt hide rgn ratio ro s)) = created s"
  by (simp_all add: capture_try_def export_canvas_eq Let_def split: option.split sum.split)

lemma capture_finally_trace:
  "trace (capture_finally p c (style_overflow e) (scrollbarWidth e)
            (getPropertyValue ''--webkit-scrollbar-display'' e) s) =
     trace s @ release_events c e"
  by (simp add: capture_finally_def release_events_def getPropertyValue_def Let_def)

lemma capture_finally_elements:
  "elements (capture_finally p c ov sw wk s) =
     (elements s)(c := released p ov sw wk (elements s c))"
  by (simp add: capture_finally_def released_def Let_def)

lemma capture_finally_frame [simp]:
  "head (capture_finally p c ov sw wk s) = head s"
  "body (capture_finally p c ov sw wk s) = body s"
  "objectURLs (capture_finally p c ov sw wk s) = objectURLs s"
  "created (capture_finally p c ov sw wk s) = created s"
  by (simp_all add: capture_finally_def Let_def)

lemma captureViewport_Some:
  "captureViewport p (Some c) options s =
     (fst (capture_try p c (orElse (format options) Png) (orElse (hideScrollbars options) True)
             (region options) (orElse (pixelRatio options) DEFAULT_PIXEL_RATIO)
             ((ExportOptions.truncate options)\<lparr>pixelRatio := None\<rparr>) (snapshot c s)),
      capture_finally p c (style_overflow (elements s c)) (scrollbarWidth (elements s c))
        (getPropertyValue ''--webkit-scrollbar-display'' (elements s c))
        (snd (capture_try p c (orElse (format options) Png) (orElse (hideScrollbars options) True)
             (region options) (orElse (pixelRatio options) DEFAULT_PIXEL_RATIO)
             ((ExportOptions.truncate options)\<lparr>pixelRatio := None\<rparr>) (snapshot c s))))"
  by (simp add: captureViewport_def Let_def split: prod.split)


lemma hide_events_emit [simp]: "hide_events c (emit e s) = hide_events c s"
  by (simp add: hide_events_def)

lemma raster_element_emit [simp]: "raster_element p c hide (emit e s) = raster_element p c hide s"
  by (simp add: raster_element_def hide_scrollbars_elements)

lemma try_events_emit [simp]:
  "try_events p c fmt hide rgn ratio ro (emit e s) = try_events p c fmt hide rgn ratio ro s"
  by (simp add: try_events_def)

lemma try_result_emit [simp]:
  "try_result p c fmt hide rgn ratio ro (emit e s) = try_result p c fmt hide rgn ratio ro s"
  by (simp add: try_result_def)

lemma captureViewport_events:
  "events_of s (snd (captureViewport p (Some c) options s)) =
     body_events p c options s @ release_events c (elements s c)"
  by (simp add: captureViewport_Some events_of_def capture_finally_trace capture_try_trace
      body_events_def rest_of_def)

lemma captureViewport_result:
  "fst (captureViewport p (Some c) options s) =
     try_result p c (orElse (format options) Png) (orElse (hideScrollbars options) True)
       (region options) (orElse (pixelRatio options) DEFAULT_PIXEL_RATIO) (rest_of options) s"
  by (simp add: captureViewport_Some capture_try_result rest_of_def)

lemma captureViewport_elements:
  "elements (snd (captureViewport p (Some c) options s)) =
     (elements s)(c := released p (style_overflow (elements s c)) (scrollbarWidth (elements s c))
        (getPropertyValue ''--webkit-scrollbar-display'' (elements s c))
        (if orElse (hideScrollbars options) True then hidden p (elements s c) else elements s c))"
  by (auto simp add: captureViewport_Some capture_finally_elements capture_try_frame
      hide_scrollbars_elements fun_eq_iff)

lemma captureViewport_container:
  "scrollbarWidth (elements (snd (captureViewport p (Some c) options s)) c) =
     scrollbarWidth (elements s c)"
  "properties (elements (snd (captureViewport p (Some c) options s)) c) =
     properties (elements s c)"
  "classList (elements (snd (captureViewport p (Some c) options s)) c) =
     classList_remove marker_class
       (if orElse (hideScrollbars options) True
        then classList_add marker_class (classList (elements s c))
        else classList (elements s c))"
  by (auto simp add: captureViewport_elements getPropertyValue_def fun_eq_iff)

lemma stage_hide_events: "e \<in> set (hide_events c s) \<Longrightarrow> stage e = 1"
  by (auto simp add: hide_events_def split: if_splits)

lemma stage_crop_events: "e \<in> set (crop_events p full rg ratio fmt ro) \<Longrightarrow> 4 \<le> stage e"
  by (auto simp add: crop_events_def encode_event_def split: if_splits option.splits)

lemma sorted_crop_events: "sorted (map stage (crop_events p full rg ratio fmt ro))"
  by (simp add: crop_events_def encode_event_def split: option.split)

lemma sorted_hide_events: "sorted (map stage (hide_events c s))"
  by (auto simp add: hide_events_def)

lemma stage_finish_events: "e \<in> set (finish_events p rgn ratio fmt ro r) \<Longrightarrow> 4 \<le> stage e"
proof (cases r)
  case (Inl err)
  assume "e \<in> set (finish_events p rgn ratio fmt ro r)"
  with Inl show ?thesis by (simp add: finish_events_def)
next
  case (Inr full)
  assume mem: "e \<in> set (finish_events p rgn ratio fmt ro r)"
  show ?thesis
  proof (cases rgn)
    case None
    with Inr mem show ?thesis by (simp add: finish_events_def encode_event_def)
  next
    case (Some rg)
    with Inr mem have "e \<in> set (crop_events p full rg ratio fmt ro)"
      by (simp add: finish_events_def)
    then show ?thesis by (rule stage_crop_events)
  qed
qed

lemma sorted_finish_events: "sorted (map stage (finish_events p rgn ratio fmt ro r))"
  by (cases r; cases rgn) (simp_all add: finish_events_def sorted_crop_events)

lemma stage_try_events:
  assumes "e \<in> set (try_events p c fmt hide rgn ratio ro s)"
  shows "1 \<le> stage e"
proof -
  from assms consider "e \<in> set (hide_events c s)" | "stage e = 2" | "stage e = 3"
    | "\<exists>r. e \<in> set (finish_events p rgn ratio fmt ro r)"
    by (auto simp add: try_events_def split: if_splits)
  then show ?thesis
  proof cases
    case 1 then show ?thesis by (simp add: stage_hide_events)
  next
    case 4 then obtain r where "e \<in> set (finish_events p rgn ratio fmt ro r)" ..
    then have "4 \<le> stage e" by (rule stage_finish_events)
    then show ?thesis by simp
  qed simp_all
qed

lemma sorted_try_events: "sorted (map stage (try_events p c fmt hide rgn ratio ro s))"
proof -
  let ?el = "raster_element p c hide s"
  let ?tail = "finish_events p rgn ratio fmt ro (toCanvas p ?el (raster_options fmt ratio ro ?el))"
  have tail_late: "4 \<le> stage e" if "e \<in> set ?tail" for e
    using that by (rule stage_finish_events)
  have mid: "sorted (map stage ([GetClientWidth c, GetClientHeight c,
      ToCanvas c ?el (raster_options fmt ratio ro ?el)] @ ?tail))"
    using tail_late by (fastforce simp add: sorted_append sorted_finish_events)
  have mid_late: "2 \<le> stage e" if "e \<in> set ([GetClientWidth c, GetClientHeight c,
      ToCanvas c ?el (raster_options fmt ratio ro ?el)] @ ?tail)" for e
    using that tail_late by fastforce
  show ?thesis
  proof (cases hide)
    case False
    with mid show ?thesis by (simp add: try_events_def)
  next
    case True
    have "sorted (map stage (hide_events c s @ ([GetClientWidth c, GetClientHeight c,
      ToCanvas c ?el (raster_options fmt ratio ro ?el)] @ ?tail)))"
      unfolding map_append sorted_append
      using mid sorted_hide_events mid_late stage_hide_events by fastforce
    with True show ?thesis by (simp add: try_events_def)
  qed
qed

lemma sorted_body_events: "sorted (map stage (body_events p c options s))"
  using stage_try_events by (simp add: body_events_def sorted_try_events)


lemma toCanvas_calls_simps [simp]:
  "toCanvas_calls [] = []"
  "toCanvas_calls (e # es) =
     (case e of ToCanvas c el opts \<Rightarrow> [(c, el, opts)] | _ \<Rightarrow> []) @ toCanvas_calls es"
  "toCanvas_calls (xs @ ys) = toCanvas_calls xs @ toCanvas_calls ys"
  by (simp_all add: toCanvas_calls_def)

lemma toCanvas_calls_hide [simp]: "toCanvas_calls (hide_events c s) = []"
  by (simp add: hide_events_def)

lemma toCanvas_calls_crop [simp]: "toCanvas_calls (crop_events p full rg ratio fmt ro) = []"
  by (simp add: crop_events_def encode_event_def split: option.split)

lemma toCanvas_calls_finish [simp]: "toCanvas_calls (finish_events p rgn ratio fmt ro r) = []"
  by (cases r; cases rgn) (simp_all add: finish_events_def encode_event_def)

lemma toCanvas_calls_release [simp]: "toCanvas_calls (release_events c e) = []"
  by (simp add: release_events_def)

lemma toCanvas_calls_capture:
  "toCanvas_calls (events_of s (snd (captureViewport p (Some c) options s))) =
     [(c, raster_element p c (orElse (hideScrollbars options) True) s,
       raster_options (orElse (format options) Png)
         (orElse (pixelRatio options) DEFAULT_PIXEL_RATIO) (rest_of options)
         (raster_element p c (orElse (hideScrollbars options) True) s))]"
  by (simp add: captureViewport_events body_events_def try_events_def)

lemma raster_element_eq:
  "raster_element p c hide s = (if hide then hidden p (elements s c) else elements s c)"
  by (simp add: raster_element_def hide_scrollbars_elements)

lemma classList_roundtrip:
  "classList_remove t (classList_add t ts) = filter (\<lambda>u. u \<noteq> t) ts"
  by (simp add: classList_remove_def classList_add_def)

lemma classList_remove_id: "(classList_remove t ts = ts) = (t \<notin> set ts)"
  unfolding classList_remove_def by (auto simp add: filter_id_conv)

lemma classList_remove_absent: "t \<notin> set (classList_remove t ts)"
  by (simp add: classList_remove_def)

lemma filter_stage_hide: "n \<noteq> 1 \<Longrightarrow> filter (\<lambda>e. stage e = n) (hide_events c s) = []"
  by (auto simp add: filter_empty_conv dest: stage_hide_events)

lemma filter_stage_finish:
  "n < 4 \<Longrightarrow> filter (\<lambda>e. stage e = n) (finish_events p rgn ratio fmt ro r) = []"
  by (auto simp add: filter_empty_conv dest: stage_finish_events)

lemma filter_stage_try:
  "filter (\<lambda>e. stage e = 2) (try_events p c fmt hide rgn ratio ro s) =
     [GetClientWidth c, GetClientHeight c]"
  "length (filter (\<lambda>e. stage e = 3) (try_events p c fmt hide rgn ratio ro s)) = 1"
  by (simp_all add: try_events_def filter_stage_hide filter_stage_finish)

lemma take_filter_stage1:
  "take 2 (filter (\<lambda>e. stage e = 1) (try_events p c fmt hide rgn ratio ro s)) =
     (if hide then [SetStyle c ''scrollbarWidth'' ''none'', ClassListAdd c marker_class] else [])"
  by (simp add: try_events_def filter_stage_finish) (simp add: hide_events_def)

lemma orElse_simps [simp]: "orElse None b = b" "orElse (Some a) b = a"
  by (simp_all add: orElse_def)

lemma no_options_simps [simp]:
  "pixelRatio no_options = None" "quality no_options = None"
  "backgroundColor no_options = None" "width no_options = None" "height no_options = None"
  "format no_options = None" "hideScrollbars no_options = None" "region no_options = None"
  by (simp_all add: no_options_def)

lemma plain_page_simps [simp]:
  "elements plain_page r = plain_container" "head plain_page = []" "body plain_page = []"
  "trace plain_page = []" "objectURLs plain_page = []" "created plain_page = 0"
  by (simp_all add: plain_page_def)

lemma getElementById_plain_page [simp]: "getElementById i plain_page = None"
  by (simp add: getElementById_def)

lemma working_platform_simps [simp]:
  "toCanvas working_platform el opts =
     Inr (Canvas (nat \<lfloor>orElse (width opts) 0 * orElse (pixelRatio opts) 1\<rfloor>)
            (nat \<lfloor>orElse (height opts) 0 * orElse (pixelRatio opts) 1\<rfloor>) [])"
  "clientSize working_platform e =
     (if scrollbarWidth e = ''none'' then (400, 300) else (385, 285))"
  "nearest_double working_platform v = v"
  "getContext working_platform cv t = True"
  "drawImage working_platform cv d = None"
  "toDataURL working_platform cv ty q = Inr (''data:'' @ ty @ '';base64,'')"
  by (simp_all add: working_platform_def)

lemma hidden_client_size [simp]:
  "clientWidth (hidden p e) =
     fst (clientSize p ((set_style_scrollbarWidth ''none'' e)
       \<lparr>classList := classList_add marker_class (classList e)\<rparr>))"
  "clientHeight (hidden p e) =
     snd (clientSize p ((set_style_scrollbarWidth ''none'' e)
       \<lparr>classList := classList_add marker_class (classList e)\<rparr>))"
  by (simp_all add: hidden_def)

lemma plain_page_events:
  "events_of plain_page (snd (captureViewport working_platform (Some 0) no_options plain_page)) =
     [GetStyle 0 ''overflow'', GetStyle 0 ''scrollbarWidth'',
      GetPropertyValue 0 ''--webkit-scrollbar-display'',
      SetStyle 0 ''scrollbarWidth'' ''none'', ClassListAdd 0 marker_class,
      GetElementById styles_id, CreateElement ''style'', AppendChild ''head'' style_node,
      GetClientWidth 0, GetClientHeight 0,
      ToCanvas 0 (hidden working_platform plain_container)
        \<lparr>pixelRatio = Some 2, quality = Some (95 / 100), backgroundColor = None,
         filterNode = None, width = Some 400, height = Some 300, skipFonts = None\<rparr>,
      ToDataURL (Canvas 800 600 []) ''image/png'' None,
      SetStyle 0 ''overflow'' [], SetStyle 0 ''scrollbarWidth'' [],
      ClassListRemove 0 marker_class]"
  by (simp add: captureViewport_events body_events_def try_events_def hide_events_def
      finish_events_def encode_event_def encode_args_def release_events_def raster_element_eq
      raster_options_def rest_of_def toHtmlToImageOptions_def style_overflow_def
      ExportOptions.truncate_def DEFAULT_PIXEL_RATIO_def DEFAULT_JPEG_QUALITY_def
      plain_container_def no_options_def)

lemmas event_defs = body_events_def try_events_def finish_events_def crop_events_def
  hide_events_def release_events_def encode_event_def

lemmas result_defs = try_result_def crop_result_def

lemma raster_failure_propagates:
  assumes "ToCanvas c el opts \<in> set (events_of s (snd (captureViewport p (Some c) options s)))"
    and "toCanvas p el opts = Inl err"
  shows "fst (captureViewport p (Some c) options s) = Inl err"
  using assms
  by (auto simp add: captureViewport_events captureViewport_result event_defs result_defs
      split: sum.splits option.splits if_splits)

lemma context_failure_propagates:
  assumes "GetContext cv ''2d'' \<in> set (events_of s (snd (captureViewport p (Some c) options s)))"
    and "\<not> getContext p cv ''2d''"
  shows "fst (captureViewport p (Some c) options s) = Inl (Error ''Failed to get canvas context'')"
  using assms
  by (auto simp add: captureViewport_events captureViewport_result event_defs result_defs
      split: sum.splits option.splits if_splits)

lemma draw_failure_propagates:
  assumes "CallDrawImage cv d \<in> set (events_of s (snd (captureViewport p (Some c) options s)))"
    and "drawImage p cv d = Some err"
  shows "fst (captureViewport p (Some c) options s) = Inl err"
  using assms
  by (auto simp add: captureViewport_events captureViewport_result event_defs result_defs
      split: sum.splits option.splits if_splits)

lemma encode_failure_propagates:
  assumes "ToDataURL cv ty q \<in> set (events_of s (snd (captureViewport p (Some c) options s)))"
    and "toDataURL p cv ty q = Inl err"
  shows "fst (captureViewport p (Some c) options s) = Inl err"
  using assms
  by (auto simp add: captureViewport_events captureViewport_result event_defs result_defs
      split: sum.splits option.splits if_splits)

lemma body_events_no_release:
  "ClassListRemove c' t \<notin> set (body_events p c options s)"
  "SetStyle c' ''overflow'' v \<notin> set (body_events p c options s)"
  "SetProperty c' n v \<notin> set (body_events p c options s)"
  by (auto simp add: event_defs split: sum.splits option.splits if_splits)

lemma filter_release_events:
  "filter (\<lambda>e. e = ClassListRemove c marker_class) (release_events c e0) =
     [ClassListRemove c marker_class]"
  by (simp add: release_events_def)

lemma filter_body_events_release:
  "filter (\<lambda>e. e = ClassListRemove c marker_class) (body_events p c options s) = []"
  using body_events_no_release(1) [of c marker_class p c options s]
  by (auto simp add: filter_empty_conv)






lemma ToCanvas_event_unique:
  assumes "ToCanvas c el opts \<in> set (events_of s (snd (captureViewport p (Some c) options s)))"
  shows "el = raster_element p c (orElse (hideScrollbars options) True) s \<and>
         opts = raster_options (orElse (format options) Png)
           (orElse (pixelRatio options) DEFAULT_PIXEL_RATIO) (rest_of options) el"
  using assms
  by (auto simp add: captureViewport_events event_defs split: sum.splits option.splits if_splits)



lemma removeChild_appended [simp]: "removeChild n (ns @ [n]) = ns"
  by (simp add: removeChild_def)

lemma downloadImage_Inr:
  assumes "dataUrl \<noteq> []" and "filename \<noteq> []"
  shows "downloadImage dataUrl filename s =
     (Inr (),
      emit (RemoveChild ''body'' ((new_node ''a'')\<lparr>download := filename, href := dataUrl,
                display := ''none''\<rparr>))
        (emit (Click ((new_node ''a'')\<lparr>download := filename, href := dataUrl,
                  display := ''none''\<rparr>))
           (emit (AppendChild ''body'' ((new_node ''a'')\<lparr>download := filename, href := dataUrl,
                     display := ''none''\<rparr>))
              (emit (CreateElement ''a'') s))))"
  using assms by (simp add: downloadImage_def Let_def emit_def)

lemma downloadImage_frame [simp]:
  "head (snd (downloadImage dataUrl filename s)) = head s"
  "body (snd (downloadImage dataUrl filename s)) = body s"
  "objectURLs (snd (downloadImage dataUrl filename s)) = objectURLs s"
  "elements (snd (downloadImage dataUrl filename s)) = elements s"
  by (simp_all add: downloadImage_def Let_def)

lemma downloadBlob_Some:
  assumes "filename \<noteq> []"
  shows "downloadBlob p (Some b) filename s =
     (Inr (), revokeObjectURL (''blob:'' @ uuid p (created s))
        (snd (downloadImage (''blob:'' @ uuid p (created s)) filename
                (snd (createObjectURL p b s)))))"
  using assms by (simp add: downloadBlob_def createObjectURL_def Let_def downloadImage_Inr)

lemma downloadBlob_cases:
  "snd (downloadBlob p blob filename s) = s \<or>
   (\<exists>b. snd (downloadBlob p blob filename s) =
      revokeObjectURL (''blob:'' @ uuid p (created s))
        (snd (downloadImage (''blob:'' @ uuid p (created s)) filename
                (snd (createObjectURL p b s)))))"
proof (cases blob)
  case None
  then show ?thesis by (simp add: downloadBlob_def)
next
  case (Some b)
  show ?thesis
  proof (cases "filename = []")
    case True
    with Some show ?thesis by (simp add: downloadBlob_def)
  next
    case False
    with Some show ?thesis by (auto simp add: downloadBlob_Some)
  qed
qed

lemma downloadBlob_frame [simp]:
  "head (snd (downloadBlob p blob filename s)) = head s"
  "body (snd (downloadBlob p blob filename s)) = body s"
  "elements (snd (downloadBlob p blob filename s)) = elements s"
  using downloadBlob_cases [of p blob filename s]
  by (auto simp add: revokeObjectURL_def createObjectURL_def Let_def)

lemma uuid_working_platform [simp]: "uuid working_platform n = replicate (Suc n) CHR ''u''"
  by (simp add: working_platform_def)

lemma getElementById_styles: "(getElementById styles_id s = None) = (styles_count s = 0)"
  by (auto simp add: getElementById_def styles_count_def find_None_iff filter_empty_conv)

lemma styles_count_frame:
  "head s' = head s \<Longrightarrow> body s' = body s \<Longrightarrow> styles_count s' = styles_count s"
  by (simp add: styles_count_def)

lemma node_id_style_node [simp]: "node_id style_node = styles_id"
  by (simp add: style_node_def)

lemma styles_count_hide_scrollbars:
  "styles_count (hide_scrollbars p c s) = (if styles_count s = 0 then 1 else styles_count s)"
proof (cases "getElementById styles_id s = None")
  case True
  then have "styles_count s = 0" by (simp add: getElementById_styles)
  moreover from this
  have "filter (\<lambda>n. node_id n = styles_id) (head s) = []"
    and "filter (\<lambda>n. node_id n = styles_id) (body s) = []"
    by (simp_all add: styles_count_def)
  ultimately show ?thesis
    using True by (simp add: styles_count_def hide_scrollbars_head)
next
  case False
  then have "styles_count s \<noteq> 0" by (simp add: getElementById_styles)
  with False show ?thesis
    by (simp add: styles_count_def hide_scrollbars_head)
qed

lemma styles_count_emit [simp]: "styles_count (emit e s) = styles_count s"
  by (simp add: styles_count_def)

lemma styles_count_captureViewport:
  "styles_count (snd (captureViewport p (Some c) options s)) =
     (if orElse (hideScrollbars options) True \<and> styles_count s = 0 then 1 else styles_count s)"
proof -
  let ?s3 = "snapshot c s"
  let ?s1 = "if orElse (hideScrollbars options) True then hide_scrollbars p c ?s3 else ?s3"
  have "styles_count (snd (captureViewport p (Some c) options s)) = styles_count ?s1"
    by (rule styles_count_frame) (simp_all add: captureViewport_Some capture_try_frame)
  then show ?thesis
    by (simp add: styles_count_hide_scrollbars)
qed

lemma styles_count_run_call:
  "styles_count (run_call c s) = (if hides c \<and> styles_count s = 0 then 1 else styles_count s)"
proof (cases c)
  case (CaptureViewport p container options)
  show ?thesis
  proof (cases container)
    case None
    with CaptureViewport show ?thesis by (simp add: captureViewport_def)
  next
    case (Some r)
    with CaptureViewport show ?thesis by (simp add: styles_count_captureViewport)
  qed
next
  case (DownloadImage dataUrl filename)
  then show ?thesis by (simp add: styles_count_def)
next
  case (DownloadBlob p blob filename)
  then show ?thesis by (simp add: styles_count_def)
qed

lemma failing_platform_simps [simp]:
  "toCanvas tainted_platform el opts = Inl (Thrown ''tainted'')"
  "clientSize tainted_platform = clientSize working_platform"
  "toCanvas contextless_platform = toCanvas working_platform"
  "getContext contextless_platform cv t = False"
  "clientSize contextless_platform = clientSize working_platform"
  "nearest_double contextless_platform = nearest_double working_platform"
  "toCanvas undrawable_platform = toCanvas working_platform"
  "getContext undrawable_platform = getContext working_platform"
  "drawImage undrawable_platform cv d = Some (Thrown ''InvalidStateError'')"
  "clientSize undrawable_platform = clientSize working_platform"
  "nearest_double undrawable_platform = nearest_double working_platform"
  "toCanvas insecure_platform = toCanvas working_platform"
  "toDataURL insecure_platform cv ty q = Inl (Thrown ''SecurityError'')"
  "clientSize insecure_platform = clientSize working_platform"
  by (simp_all add: tainted_platform_def contextless_platform_def undrawable_platform_def
      insecure_platform_def)

lemma classList_released:
  "classList_remove marker_class
     (if hide then classList_add marker_class ts else ts) =
   filter (\<lambda>t. t \<noteq> marker_class) ts"
  by (simp add: classList_roundtrip) (simp add: classList_remove_def)

section \<open>Properties\<close>

text \<open>
  The properties are numbered as the claims about the library are. Each is stated for
  every platform, so for every way in which the capabilities may answer or fail.
\<close>

text \<open>
  C1 (as amended). Whatever the platform answers, and so on the normal return and on every
  error, the container's inline scrollbar width and its custom properties are after the
  call what they were before it, the marker class is not in its class list, and the class
  list is the one before the call without the marker class: it is the class list before
  the call exactly when the marker class was not in it.
\<close>

theorem captureViewport_restores_suppression:
  "scrollbarWidth (elements (snd (captureViewport p (Some c) options s)) c) =
     scrollbarWidth (elements s c) \<and>
   properties (elements (snd (captureViewport p (Some c) options s)) c) =
     properties (elements s c) \<and>
   marker_class \<notin> set (classList (elements (snd (captureViewport p (Some c) options s)) c)) \<and>
   classList (elements (snd (captureViewport p (Some c) options s)) c) =
     filter (\<lambda>t. t \<noteq> marker_class) (classList (elements s c)) \<and>
   (classList (elements (snd (captureViewport p (Some c) options s)) c) =
      classList (elements s c)) = (marker_class \<notin> set (classList (elements s c)))"
proof -
  let ?before = "classList (elements s c)"
  let ?after = "classList (elements (snd (captureViewport p (Some c) options s)) c)"
  have after: "?after = filter (\<lambda>t. t \<noteq> marker_class) ?before"
    by (simp add: captureViewport_container classList_roundtrip) (simp add: classList_remove_def)
  have "(filter (\<lambda>t. t \<noteq> marker_class) ?before = ?before) = (marker_class \<notin> set ?before)"
    using classList_remove_id [of marker_class ?before] by (simp add: classList_remove_def)
  with after show ?thesis
    by (simp add: captureViewport_container)
qed

theorem captureViewport_restores_suppression_counterexample:
  "classList (elements suppressed_page 0) = [marker_class] \<and>
   classList (elements (snd (captureViewport working_platform (Some 0) no_options suppressed_page)) 0)
     = [] \<and>
   classList (elements (snd (captureViewport working_platform (Some 0) no_options suppressed_page)) 0)
     \<noteq> classList (elements suppressed_page 0)"
  by (simp add: captureViewport_container suppressed_page_def classList_remove_def classList_add_def)

theorem captureViewport_restores_suppression_witness:
  "classList (elements (snd (captureViewport working_platform (Some 0) no_options plain_page)) 0) = [] \<and>
   classList (elements (snd (captureViewport working_platform (Some 0) no_options suppressed_page)) 0) = [] \<and>
   scrollbarWidth (elements (snd (captureViewport working_platform (Some 0) no_options suppressed_page)) 0) = ''none''"
  using captureViewport_restores_suppression [of working_platform 0 no_options plain_page]
    captureViewport_restores_suppression [of working_platform 0 no_options suppressed_page]
  by (simp add: suppressed_page_def plain_page_def plain_container_def)

text \<open>
  C2. The events of every call end with the writes of the \<^verbatim>\<open>finally\<close> block, which
  occur once: the marker class is removed exactly once, as the last event, and nothing
  before it removes the class, restores the overflow or sets a property. They take
  effect: the rasteriser is handed the container with the scrollbar width \<^verbatim>\<open>none\<close>
  and the marker class (when scrollbars are to be hidden), and after the call, whether it
  returned or failed, the scrollbar width and the custom properties of the container are
  those before the call and the marker class is gone. When the rasteriser rejects, when
  no 2D context is available, when \<^verbatim>\<open>drawImage\<close> throws or when \<^verbatim>\<open>toDataURL\<close>
  throws, the call fails with that very error.
\<close>

theorem captureViewport_releases_once:
  "let s' = snd (captureViewport p (Some c) options s);
       evs = events_of s s';
       r = fst (captureViewport p (Some c) options s)
   in (\<exists>before. evs = before @ release_events c (elements s c) \<and>
         ClassListRemove c marker_class \<notin> set before \<and>
         (\<forall>v. SetStyle c ''overflow'' v \<notin> set before) \<and>
         (\<forall>n v. SetProperty c n v \<notin> set before)) \<and>
      length (filter (\<lambda>e. e = ClassListRemove c marker_class) evs) = 1 \<and>
      last evs = ClassListRemove c marker_class \<and>
      (\<forall>el opts. ToCanvas c el opts \<in> set evs \<and> orElse (hideScrollbars options) True
         \<longrightarrow> scrollbarWidth el = ''none'' \<and> marker_class \<in> set (classList el)) \<and>
      scrollbarWidth (elements s' c) = scrollbarWidth (elements s c) \<and>
      properties (elements s' c) = properties (elements s c) \<and>
      marker_class \<notin> set (classList (elements s' c)) \<and>
      classList (elements s' c) = filter (\<lambda>t. t \<noteq> marker_class) (classList (elements s c)) \<and>
      (\<forall>el opts err. ToCanvas c el opts \<in> set evs \<and> toCanvas p el opts = Inl err
         \<longrightarrow> r = Inl err) \<and>
      (\<forall>cv. GetContext cv ''2d'' \<in> set evs \<and> \<not> getContext p cv ''2d''
         \<longrightarrow> r = Inl (Error ''Failed to get canvas context'')) \<and>
      (\<forall>cv d err. CallDrawImage cv d \<in> set evs \<and> drawImage p cv d = Some err
         \<longrightarrow> r = Inl err) \<and>
      (\<forall>cv ty q err. ToDataURL cv ty q \<in> set evs \<and> toDataURL p cv ty q = Inl err
         \<longrightarrow> r = Inl err)"
proof -
  let ?s' = "snd (captureViewport p (Some c) options s)"
  let ?evs = "events_of s ?s'"
  have split: "?evs = body_events p c options s @ release_events c (elements s c)"
    by (rule captureViewport_events)
  have once: "\<exists>before. ?evs = before @ release_events c (elements s c) \<and>
         ClassListRemove c marker_class \<notin> set before \<and>
         (\<forall>v. SetStyle c ''overflow'' v \<notin> set before) \<and>
         (\<forall>n v. SetProperty c n v \<notin> set before)"
    using split body_events_no_release by blast
  have count: "length (filter (\<lambda>e. e = ClassListRemove c marker_class) ?evs) = 1"
    by (simp add: split filter_release_events filter_body_events_release)
  have final: "last ?evs = ClassListRemove c marker_class"
    by (simp add: split release_events_def)
  have seen: "\<forall>el opts. ToCanvas c el opts \<in> set ?evs \<and> orElse (hideScrollbars options) True
      \<longrightarrow> scrollbarWidth el = ''none'' \<and> marker_class \<in> set (classList el)"
  proof (intro allI impI)
    fix el opts
    assume a: "ToCanvas c el opts \<in> set ?evs \<and> orElse (hideScrollbars options) True"
    then have "el = raster_element p c (orElse (hideScrollbars options) True) s"
      using ToCanvas_event_unique [of c el opts s p options] by simp
    with a show "scrollbarWidth el = ''none'' \<and> marker_class \<in> set (classList el)"
      by (simp add: raster_element_eq classList_add_def)
  qed
  have width: "scrollbarWidth (elements ?s' c) = scrollbarWidth (elements s c)"
    and props: "properties (elements ?s' c) = properties (elements s c)"
    by (rule captureViewport_container)+
  have cls: "classList (elements ?s' c) =
      filter (\<lambda>t. t \<noteq> marker_class) (classList (elements s c))"
    by (simp only: captureViewport_container classList_released)
  then have gone: "marker_class \<notin> set (classList (elements ?s' c))"
    by simp
  have raster: "\<forall>el opts err. ToCanvas c el opts \<in> set ?evs \<and> toCanvas p el opts = Inl err
      \<longrightarrow> fst (captureViewport p (Some c) options s) = Inl err"
    using raster_failure_propagates [of c _ _ s p options] by blast
  have noctx: "\<forall>cv. GetContext cv ''2d'' \<in> set ?evs \<and> \<not> getContext p cv ''2d''
      \<longrightarrow> fst (captureViewport p (Some c) options s) =
        Inl (Error ''Failed to get canvas context'')"
    using context_failure_propagates [of _ s p c options] by blast
  have draw: "\<forall>cv d err. CallDrawImage cv d \<in> set ?evs \<and> drawImage p cv d = Some err
      \<longrightarrow> fst (captureViewport p (Some c) options s) = Inl err"
    using draw_failure_propagates [of _ _ s p c options] by blast
  have encode: "\<forall>cv ty q err. ToDataURL cv ty q \<in> set ?evs \<and> toDataURL p cv ty q = Inl err
      \<longrightarrow> fst (captureViewport p (Some c) options s) = Inl err"
    using encode_failure_propagates [of _ _ _ s p c options] by blast
  show ?thesis
    unfolding Let_def
    using once count final seen width props gone cls raster noctx draw encode
    by (intro conjI)
qed

theorem captureViewport_releases_once_witness:
  "fst (captureViewport tainted_platform (Some 0) no_options plain_page) = Inl (Thrown ''tainted'') \<and>
   scrollbarWidth (elements plain_page 0) = [] \<and>
   scrollbarWidth (elements (snd (captureViewport tainted_platform (Some 0) no_options plain_page)) 0)
     = [] \<and>
   classList (elements (snd (captureViewport tainted_platform (Some 0) no_options plain_page)) 0)
     = [] \<and>
   fst (captureViewport contextless_platform (Some 0) region_options plain_page) =
     Inl (Error ''Failed to get canvas context'') \<and>
   fst (captureViewport undrawable_platform (Some 0) region_options plain_page) =
     Inl (Thrown ''InvalidStateError'') \<and>
   fst (captureViewport insecure_platform (Some 0) no_options plain_page) =
     Inl (Thrown ''SecurityError'') \<and>
   last (events_of plain_page (snd (captureViewport tainted_platform (Some 0) no_options plain_page))) =
     ClassListRemove 0 marker_class"
proof -
  note once = captureViewport_releases_once [unfolded Let_def]
  let ?rg = "\<lparr>region_x = 100, region_y = 50, region_width = 400, region_height = 300\<rparr>"
  let ?tel = "raster_element tainted_platform 0 True plain_page"
  let ?topts = "raster_options Png DEFAULT_PIXEL_RATIO (rest_of no_options) ?tel"
  have "ToCanvas 0 ?tel ?topts
      \<in> set (events_of plain_page (snd (captureViewport tainted_platform (Some 0) no_options plain_page)))"
    by (simp add: captureViewport_events body_events_def try_events_def)
  moreover have "toCanvas tainted_platform ?tel ?topts = Inl (Thrown ''tainted'')"
    by simp
  ultimately have 1: "fst (captureViewport tainted_platform (Some 0) no_options plain_page) =
      Inl (Thrown ''tainted'')"
    using once [of plain_page tainted_platform 0 no_options] by blast
  let ?ccv = "scaled_canvas contextless_platform ?rg DEFAULT_PIXEL_RATIO []"
  have "GetContext ?ccv ''2d''
      \<in> set (events_of plain_page
          (snd (captureViewport contextless_platform (Some 0) region_options plain_page)))"
    by (simp add: captureViewport_events body_events_def try_events_def finish_events_def
        crop_events_def region_options_def)
  moreover have "\<not> getContext contextless_platform ?ccv ''2d''"
    by simp
  ultimately have 2: "fst (captureViewport contextless_platform (Some 0) region_options plain_page) =
      Inl (Error ''Failed to get canvas context'')"
    using once [of plain_page contextless_platform 0 region_options] by blast
  let ?ucv = "scaled_canvas undrawable_platform ?rg DEFAULT_PIXEL_RATIO []"
  let ?ud = "scaled_drawing undrawable_platform (Canvas 800 600 []) ?rg DEFAULT_PIXEL_RATIO"
  have "CallDrawImage ?ucv ?ud
      \<in> set (events_of plain_page
          (snd (captureViewport undrawable_platform (Some 0) region_options plain_page)))"
    by (simp add: captureViewport_events body_events_def try_events_def finish_events_def
        crop_events_def region_options_def raster_options_def raster_element_eq
        toHtmlToImageOptions_def plain_container_def DEFAULT_PIXEL_RATIO_def)
  moreover have "drawImage undrawable_platform ?ucv ?ud = Some (Thrown ''InvalidStateError'')"
    by simp
  ultimately have 3: "fst (captureViewport undrawable_platform (Some 0) region_options plain_page) =
      Inl (Thrown ''InvalidStateError'')"
    using once [of plain_page undrawable_platform 0 region_options] by blast
  have "ToDataURL (Canvas 800 600 []) ''image/png'' None
      \<in> set (events_of plain_page
          (snd (captureViewport insecure_platform (Some 0) no_options plain_page)))"
    by (simp add: captureViewport_events body_events_def try_events_def finish_events_def
        encode_event_def encode_args_def raster_options_def raster_element_eq
        toHtmlToImageOptions_def plain_container_def DEFAULT_PIXEL_RATIO_def)
  moreover have "toDataURL insecure_platform (Canvas 800 600 []) ''image/png'' None =
      Inl (Thrown ''SecurityError'')"
    by simp
  ultimately have 4: "fst (captureViewport insecure_platform (Some 0) no_options plain_page) =
      Inl (Thrown ''SecurityError'')"
    using once [of plain_page insecure_platform 0 no_options] by blast
  note tainted = once [of plain_page tainted_platform 0 no_options]
  from tainted have 5: "last (events_of plain_page
      (snd (captureViewport tainted_platform (Some 0) no_options plain_page))) =
      ClassListRemove 0 marker_class"
    by (elim conjE)
  from tainted have 6: "scrollbarWidth (elements (snd (captureViewport tainted_platform (Some 0)
      no_options plain_page)) 0) = scrollbarWidth (elements plain_page 0)"
    by (elim conjE)
  from tainted have 7: "classList (elements (snd (captureViewport tainted_platform (Some 0)
      no_options plain_page)) 0) =
      filter (\<lambda>t. t \<noteq> marker_class) (classList (elements plain_page 0))"
    by (elim conjE)
  have 8: "scrollbarWidth (elements plain_page 0) = []" "classList (elements plain_page 0) = []"
    by (simp_all add: plain_container_def)
  from 1 2 3 4 5 6 7 8 show ?thesis by simp
qed

text \<open>
  C3 (as amended). The rasteriser is called once, and the width and height it is given
  are always the \<^verbatim>\<open>clientWidth\<close> and \<^verbatim>\<open>clientHeight\<close> of the container as they
  are when the code measures it: after its scrollbars have been hidden and it has been
  laid out again, when scrollbars are to be hidden, and as before the call otherwise.
  The width and height of the caller's options never reach the rasteriser.
\<close>

theorem captureViewport_binds_visible_size:
  "\<exists>el opts. toCanvas_calls (events_of s (snd (captureViewport p (Some c) options s))) =
               [(c, el, opts)] \<and>
     width opts = Some (clientWidth el) \<and> height opts = Some (clientHeight el) \<and>
     el = (if orElse (hideScrollbars options) True
           then reflow p ((set_style_scrollbarWidth ''none'' (elements s c))
                  \<lparr>classList := classList_add marker_class (classList (elements s c))\<rparr>)
           else elements s c)"
  by (simp add: toCanvas_calls_capture raster_options_def raster_element_eq hidden_def)

theorem captureViewport_binds_visible_size_counterexample:
  "width sized_options = Some 100 \<and> height sized_options = Some 50 \<and>
   clientWidth (elements plain_page 0) = 385 \<and> clientHeight (elements plain_page 0) = 285 \<and>
   map (\<lambda>(c, el, opts). (width opts, height opts))
     (toCanvas_calls
        (events_of plain_page (snd (captureViewport working_platform (Some 0) sized_options plain_page))))
     = [(Some 400, Some 300)]"
  by (simp add: toCanvas_calls_capture raster_options_def raster_element_eq sized_options_def
      plain_container_def)

text \<open>
  C4 (as amended). The events of a call are those of the \<^verbatim>\<open>try\<close> block followed by
  the writes of the \<^verbatim>\<open>finally\<close> block, and the former are in the order of the
  stages: the reads that save the styles, the scrollbar hiding (when it is asked for),
  the measurement of the visible size, the call of the rasteriser, the crop, the encoding.
\<close>

theorem captureViewport_stage_order:
  "\<exists>evs. events_of s (snd (captureViewport p (Some c) options s)) =
            evs @ release_events c (elements s c) \<and>
     sorted (map stage evs) \<and>
     take 2 (filter (\<lambda>e. stage e = 1) evs) =
       (if orElse (hideScrollbars options) True
        then [SetStyle c ''scrollbarWidth'' ''none'', ClassListAdd c marker_class] else []) \<and>
     filter (\<lambda>e. stage e = 2) evs = [GetClientWidth c, GetClientHeight c] \<and>
     length (filter (\<lambda>e. stage e = 3) evs) = 1"
proof (intro exI conjI)
  show "events_of s (snd (captureViewport p (Some c) options s)) =
      body_events p c options s @ release_events c (elements s c)"
    by (rule captureViewport_events)
  show "sorted (map stage (body_events p c options s))"
    by (rule sorted_body_events)
  show "take 2 (filter (\<lambda>e. stage e = 1) (body_events p c options s)) =
      (if orElse (hideScrollbars options) True
       then [SetStyle c ''scrollbarWidth'' ''none'', ClassListAdd c marker_class] else [])"
    using take_filter_stage1 [of p c "orElse (format options) Png"
        "orElse (hideScrollbars options) True" "region options"
        "orElse (pixelRatio options) DEFAULT_PIXEL_RATIO" "rest_of options" s]
    by (simp add: body_events_def)
qed (simp_all add: body_events_def filter_stage_try)

theorem captureViewport_stage_order_counterexample:
  "events_of plain_page (snd (captureViewport working_platform (Some 0) no_options plain_page)) ! 3
     = SetStyle 0 ''scrollbarWidth'' ''none'' \<and>
   events_of plain_page (snd (captureViewport working_platform (Some 0) no_options plain_page)) ! 4
     = ClassListAdd 0 marker_class \<and>
   events_of plain_page (snd (captureViewport working_platform (Some 0) no_options plain_page)) ! 8
     = GetClientWidth 0 \<and>
   events_of plain_page (snd (captureViewport working_platform (Some 0) no_options plain_page)) ! 9
     = GetClientHeight 0 \<and>
   GetClientWidth 0 \<notin> set (take 8
     (events_of plain_page (snd (captureViewport working_platform (Some 0) no_options plain_page)))) \<and>
   GetClientHeight 0 \<notin> set (take 8
     (events_of plain_page (snd (captureViewport working_platform (Some 0) no_options plain_page))))"
  by (simp add: plain_page_events)




text \<open>
  C6. After any run of calls of the library, the number of elements with the id
  \<^verbatim>\<open>__capture-viewport-styles\<close> is 1 when the page had none and some call of the run
  hid scrollbars, and is otherwise what it was before the run: the style element is
  inserted only when no element has the id, so at most once, and no call removes it.
\<close>

theorem styles_injected_once:
  "styles_count (run cs s) =
     (if list_ex hides cs \<and> styles_count s = 0 then 1 else styles_count s)"
proof (induction cs arbitrary: s)
  case Nil
  show ?case by (simp add: run_def)
next
  case (Cons c cs)
  have "run (c # cs) s = run cs (run_call c s)"
    by (simp add: run_def)
  then show ?case
    using Cons.IH [of "run_call c s"] by (simp add: styles_count_run_call)
qed

theorem styles_injected_once_witness:
  "styles_count
     (run [CaptureViewport working_platform (Some 0) no_options,
           CaptureViewport tainted_platform (Some 0) no_options,
           DownloadImage ''data:,'' ''my-export.png'',
           CaptureViewport working_platform (Some 1) no_options] plain_page) = 1"
  using styles_injected_once
    [of "[CaptureViewport working_platform (Some 0) no_options,
          CaptureViewport tainted_platform (Some 0) no_options,
          DownloadImage ''data:,'' ''my-export.png'',
          CaptureViewport working_platform (Some 1) no_options]" plain_page]
  by (simp add: styles_count_def)

text \<open>
  C7. For every container that is not null, \<^verbatim>\<open>getViewportInfo\<close> returns the
  measured sizes, \<open>hasHorizontalScroll\<close> equal to \<open>scrollWidth > visibleWidth\<close>,
  \<open>hasVerticalScroll\<close> equal to \<open>scrollHeight > visibleHeight\<close>, and
  \<open>isScrollable\<close> equal to their disjunction; a container with client size 800 by 600
  and scroll size 1600 by 600 is scrollable horizontally and not vertically.
\<close>

theorem getViewportInfo_flags:
  "(\<exists>info. getViewportInfo (Some c) s = Inr info \<and>
      visibleWidth info = clientWidth (elements s c) \<and>
      visibleHeight info = clientHeight (elements s c) \<and>
      scrollWidth' info = scrollWidth (elements s c) \<and>
      scrollHeight' info = scrollHeight (elements s c) \<and>
      hasHorizontalScroll info = (scrollWidth' info > visibleWidth info) \<and>
      hasVerticalScroll info = (scrollHeight' info > visibleHeight info) \<and>
      isScrollable info = (hasHorizontalScroll info \<or> hasVerticalScroll info)) \<and>
   getViewportInfo (Some c)
     (update_element c
        (\<lambda>e. e\<lparr>clientWidth := 800, clientHeight := 600, scrollWidth := 1600,
               scrollHeight := 600\<rparr>) s) =
     Inr \<lparr>visibleWidth = 800, visibleHeight = 600,
          scrollLeft' = scrollLeft (elements s c), scrollTop' = scrollTop (elements s c),
          scrollWidth' = 1600, scrollHeight' = 600,
          isScrollable = True, hasHorizontalScroll = True, hasVerticalScroll = False\<rparr>"
  by (simp add: getViewportInfo_def Let_def)

text \<open>
  C8. The normalised options hold the supplied \<open>pixelRatio\<close> or 2, the supplied
  \<open>quality\<close> or 0.95, and the supplied \<open>backgroundColor\<close>, or else
  \<^verbatim>\<open>#ffffff\<close> for JPEG and nothing for PNG; the four export functions hand
  exactly the normalised options to the capability they call, and the options that
  \<^verbatim>\<open>captureViewport\<close> hands to the rasteriser carry the same three values.
\<close>

theorem option_normalization:
  "pixelRatio (toHtmlToImageOptions options isJpeg) =
     Some (case pixelRatio options of None \<Rightarrow> 2 | Some v \<Rightarrow> v) \<and>
   quality (toHtmlToImageOptions options isJpeg) =
     Some (case quality options of None \<Rightarrow> 95 / 100 | Some v \<Rightarrow> v) \<and>
   backgroundColor (toHtmlToImageOptions options isJpeg) =
     (case backgroundColor options of
        Some b \<Rightarrow> Some b
      | None \<Rightarrow> if isJpeg then Some ''#ffffff'' else None) \<and>
   exportToPng p (Some e) options s = toPng p (elements s e) (toHtmlToImageOptions options False) \<and>
   exportToJpeg p (Some e) options s = toJpeg p (elements s e) (toHtmlToImageOptions options True) \<and>
   exportToBlob p (Some e) options s = toBlob p (elements s e) (toHtmlToImageOptions options False) \<and>
   exportToCanvas p (Some e) options s =
     toCanvas p (elements s e) (toHtmlToImageOptions options False) \<and>
   map (\<lambda>(c, el, opts). (pixelRatio opts, quality opts, backgroundColor opts))
     (toCanvas_calls (events_of s (snd (captureViewport p (Some e) voptions s)))) =
     [(Some (case pixelRatio voptions of None \<Rightarrow> 2 | Some v \<Rightarrow> v),
       Some (case quality voptions of None \<Rightarrow> 95 / 100 | Some v \<Rightarrow> v),
       case backgroundColor voptions of
         Some b \<Rightarrow> Some b
       | None \<Rightarrow> if format voptions = Some Jpeg then Some ''#ffffff'' else None)]"
  by (simp add: toHtmlToImageOptions_def orElse_def DEFAULT_PIXEL_RATIO_def
      DEFAULT_JPEG_QUALITY_def DEFAULT_JPEG_BACKGROUND_def exportToPng_def exportToJpeg_def
      exportToBlob_def exportToCanvas_def toCanvas_calls_capture raster_options_def rest_of_def
      ExportOptions.truncate_def split: option.split)

text \<open>
  C9. The inline overflow of the container is not kept. The shorthand
  \<^verbatim>\<open>style.overflow\<close> of a container whose only inline style is
  \<^verbatim>\<open>overflow-x: scroll\<close> reads as the empty string, and the \<^verbatim>\<open>finally\<close> block,
  which writes this empty string back, removes the declaration: after the call the
  container has no inline \<^verbatim>\<open>overflow-x\<close>. On a container with
  \<^verbatim>\<open>overflow: hidden !important\<close> the values come back and the priority is lost.
\<close>

theorem captureViewport_loses_overflow:
  "overflowX (elements horizontal_page 0) = ''scroll'' \<and>
   style_overflow (elements horizontal_page 0) = [] \<and>
   SetStyle 0 ''overflow'' []
     \<in> set (events_of horizontal_page
         (snd (captureViewport working_platform (Some 0) no_options horizontal_page))) \<and>
   overflowX (elements (snd (captureViewport working_platform (Some 0) no_options horizontal_page)) 0)
     = [] \<and>
   important (elements pinned_page 0) ''overflow-x'' \<and>
   style_overflow (elements pinned_page 0) = ''hidden'' \<and>
   overflowX (elements (snd (captureViewport working_platform (Some 0) no_options pinned_page)) 0)
     = ''hidden'' \<and>
   \<not> important (elements (snd (captureViewport working_platform (Some 0) no_options pinned_page)) 0)
       ''overflow-x''"
  by (simp add: captureViewport_elements captureViewport_events release_events_def released_def
      hidden_def reflow_def set_style_overflow_def set_style_scrollbarWidth_def style_overflow_def
      getPropertyValue_def horizontal_page_def pinned_page_def plain_container_def Let_def)

text \<open>
  C10. For every blob and every filename that is not empty, \<^verbatim>\<open>downloadBlob\<close> returns
  without an error; it creates one object URL, which is not empty, the link that
  \<^verbatim>\<open>downloadImage\<close> appends, clicks and removes has it as its \<^verbatim>\<open>href\<close>, and the last
  event revokes this URL: it is not among the live object URLs afterwards.
\<close>

theorem downloadBlob_revokes:
  assumes "filename \<noteq> []"
  shows
    "let url = ''blob:'' @ uuid p (created s);
         link = (new_node ''a'')\<lparr>download := filename, href := url, display := ''none''\<rparr>;
         s' = snd (downloadBlob p (Some b) filename s)
     in fst (downloadBlob p (Some b) filename s) = Inr () \<and>
        url \<noteq> [] \<and>
        events_of s s' =
          [CreateObjectURL b url, CreateElement ''a'', AppendChild ''body'' link, Click link,
           RemoveChild ''body'' link, RevokeObjectURL url] \<and>
        url \<notin> set (objectURLs s') \<and>
        objectURLs s' = removeAll url (objectURLs s) \<and>
        body s' = body s"
  using assms
  by (simp add: Let_def downloadBlob_Some downloadImage_Inr revokeObjectURL_def
      createObjectURL_def events_of_def)

theorem downloadBlob_revokes_witness:
  "fst (downloadBlob working_platform (Some (Blob ''png'')) ''my-export.png'' plain_page) = Inr () \<and>
   events_of plain_page
     (snd (downloadBlob working_platform (Some (Blob ''png'')) ''my-export.png'' plain_page)) =
     [CreateObjectURL (Blob ''png'') ''blob:u'', CreateElement ''a'',
      AppendChild ''body'' ((new_node ''a'')\<lparr>download := ''my-export.png'', href := ''blob:u'',
        display := ''none''\<rparr>),
      Click ((new_node ''a'')\<lparr>download := ''my-export.png'', href := ''blob:u'',
        display := ''none''\<rparr>),
      RemoveChild ''body'' ((new_node ''a'')\<lparr>download := ''my-export.png'', href := ''blob:u'',
        display := ''none''\<rparr>),
      RevokeObjectURL ''blob:u''] \<and>
   objectURLs (snd (downloadBlob working_platform (Some (Blob ''png'')) ''my-export.png'' plain_page))
     = []"
proof -
  have "''my-export.png'' \<noteq> []" by simp
  from downloadBlob_revokes [OF this, of working_platform plain_page "Blob ''png''"]
  show ?thesis
    by (simp add: Let_def)
qed

end
